theory Spec2Isabelle
  imports Main "HOL-Library.Word"
begin

section \<open>Counter store: data\<close>

text \<open>
  The result object of a spend, \<^verbatim>\<open>{ ok, error?, remaining?, idempotent? }\<close>.
  A field that the JavaScript object does not carry is \<open>None\<close>; \<open>ok\<close> is only ever
  read for its truthiness, so an absent \<open>ok\<close> reads as \<open>False\<close>.
\<close>

record decision =
  ok :: bool
  error :: "string option"
  remaining :: "int option"
  idempotent :: "bool option"

text \<open>
  What a storage key holds: the string written by \<^verbatim>\<open>String(n)\<close> (a count; the Durable
  Object stores the number itself) or by \<^verbatim>\<open>JSON.stringify(response)\<close>, represented by
  the value it encodes, together with the \<^verbatim>\<open>expirationTtl\<close> option of the
  \<^verbatim>\<open>put\<close> that wrote it (\<open>None\<close> when the call passed no option).
\<close>

datatype stored = Num int | Doc decision

record entry =
  content :: stored
  expirationTtl :: "int option"

type_synonym storage = "string \<Rightarrow> entry option"

text \<open>The \<^verbatim>\<open>key\<close> object handed to the store by the handler.\<close>

record counter_key =
  k_projectId :: string
  k_issuerPk :: string
  k_origin :: string
  k_epoch :: string
  k_policy :: string
  k_window :: string
  k_y :: string

definition storage_get :: "storage \<Rightarrow> string \<Rightarrow> stored option" where
  "storage_get s k = map_option content (s k)"

definition storage_put :: "storage \<Rightarrow> string \<Rightarrow> stored \<Rightarrow> int option \<Rightarrow> storage" where
  "storage_put s k v t = s(k \<mapsto> \<lparr>content = v, expirationTtl = t\<rparr>)"

text \<open>
  \<^verbatim>\<open>parseInt(x || '0', 10)\<close> on the KV store and \<^verbatim>\<open>x || 0\<close> on the Durable Object.
  The count keys and the decision keys have different prefixes, so a decision is never
  read as a count; that case is given the value 0 here.
\<close>

definition parseCount :: "stored option \<Rightarrow> int" where
  "parseCount v = (case v of None \<Rightarrow> 0 | Some (Num n) \<Rightarrow> n | Some (Doc d) \<Rightarrow> 0)"

text \<open>
  Counts, limits and TTLs are JavaScript numbers, that is IEEE doubles. The model computes
  with integers: \<^verbatim>\<open>currentCount + 1\<close>, \<^verbatim>\<open>limit - newCount\<close>, the comparisons and the
  decimal text written by \<^verbatim>\<open>String\<close> and read by \<^verbatim>\<open>parseInt\<close> are those of the integers
  as long as the operands and the result are safe integers (\<^verbatim>\<open>Number.isSafeInteger\<close>: an
  integer of absolute value at most \<open>2^53 - 1\<close>). Outside this range a double rounds, and
  the model no longer says what the code computes; statements about the arithmetic of a
  spend carry the range as a hypothesis.
\<close>

definition isSafeInteger :: "int \<Rightarrow> bool" where
  "isSafeInteger n = (\<bar>n\<bar> \<le> 2 ^ 53 - 1)"

text \<open>\<^verbatim>\<open>JSON.parse\<close> of a stored decision; a stored number spreads to an object without fields.\<close>

definition parseDecision :: "stored \<Rightarrow> decision" where
  "parseDecision v =
     (case v of
        Doc d \<Rightarrow> d
      | Num n \<Rightarrow> \<lparr>ok = False, error = None, remaining = None, idempotent = None\<rparr>)"

definition ik_key :: "string \<Rightarrow> string \<Rightarrow> string" where
  "ik_key pid ik = ''ik:project:'' @ pid @ '':'' @ ik"

definition grace_key :: "string \<Rightarrow> string \<Rightarrow> string" where
  "grace_key pid gk = ''grace:project:'' @ pid @ '':'' @ gk"

definition count_key :: "string \<Rightarrow> string" where
  "count_key counterKey = ''count:'' @ counterKey"

definition failureResponse :: decision where
  "failureResponse =
     \<lparr>ok = False, error = Some ''limit_exceeded'', remaining = Some 0, idempotent = None\<rparr>"

definition successResponse :: "int \<Rightarrow> decision" where
  "successResponse r = \<lparr>ok = True, error = None, remaining = Some r, idempotent = None\<rparr>"

text \<open>The constructors of both stores set \<^verbatim>\<open>this.enableMigrationFallback = true\<close>.\<close>

definition enableMigrationFallback :: bool where
  "enableMigrationFallback = True"

section \<open>KVStore (best-effort backend)\<close>

text \<open>
  \<^verbatim>\<open>KVStore.spend\<close>, lines 36-52: the count read and the migration fallback. The result
  is the value of \<^verbatim>\<open>currentCount\<close> at the limit comparison and the store after the
  fallback's \<^verbatim>\<open>put\<close>. The two key builders of \<^verbatim>\<open>shared/storage-interface.js\<close> are
  parameters \<open>bck\<close> (buildCounterKey) and \<open>blk\<close> (buildLegacyCounterKey).
\<close>

definition KVStore_currentCount ::
  "(counter_key \<Rightarrow> string) \<Rightarrow> (counter_key \<Rightarrow> string) \<Rightarrow> counter_key \<Rightarrow> int \<Rightarrow> storage
     \<Rightarrow> int \<times> storage" where
  "KVStore_currentCount bck blk key ttlSeconds kv =
     (let countKey = count_key (bck key);
          currentCount = parseCount (storage_get kv countKey)
      in if currentCount = 0 \<and> enableMigrationFallback then
           (let legacyCountKey = count_key (blk key);
                legacyCount = parseCount (storage_get kv legacyCountKey)
            in if legacyCount > 0
               then (legacyCount, storage_put kv countKey (Num legacyCount) (Some ttlSeconds))
               else (currentCount, kv))
         else (currentCount, kv))"

definition KVStore_spend ::
  "(counter_key \<Rightarrow> string) \<Rightarrow> (counter_key \<Rightarrow> string) \<Rightarrow> counter_key \<Rightarrow> string \<Rightarrow> int \<Rightarrow> int
     \<Rightarrow> storage \<Rightarrow> decision \<times> storage" where
  "KVStore_spend bck blk key IK limit ttlSeconds kv =
     (let ikKey = ik_key (k_projectId key) IK
      in case storage_get kv ikKey of
           Some existingResponse \<Rightarrow>
             ((parseDecision existingResponse)\<lparr>idempotent := Some True\<rparr>, kv)
         | None \<Rightarrow>
             (case KVStore_currentCount bck blk key ttlSeconds kv of
                (currentCount, kv1) \<Rightarrow>
                  if currentCount \<ge> limit then
                    (failureResponse,
                     storage_put kv1 ikKey (Doc failureResponse) (Some ttlSeconds))
                  else
                    (let newCount = currentCount + 1;
                         rem = max 0 (limit - newCount)
                     in (successResponse rem,
                         storage_put
                           (storage_put kv1 (count_key (bck key)) (Num newCount) (Some ttlSeconds))
                           ikKey (Doc (successResponse rem)) (Some ttlSeconds)))))"

definition KVStore_guardGrace :: "string \<Rightarrow> string \<Rightarrow> int \<Rightarrow> storage \<Rightarrow> decision option" where
  "KVStore_guardGrace pid graceKey ttlSeconds kv =
     (case storage_get kv (grace_key pid graceKey) of
        Some cached \<Rightarrow> Some (parseDecision cached)
      | None \<Rightarrow> None)"

text \<open>
  \<^verbatim>\<open>KVStore.cacheGraceResponse\<close> is not one step on the store: it awaits \<^verbatim>\<open>kv.get\<close>, and
  then, when the read found nothing, awaits \<^verbatim>\<open>kv.put\<close>. Other requests can run between
  the two (the handler hands the call to \<^verbatim>\<open>ctx.waitUntil\<close>), so the read and the write
  are two steps: the first returns \<^verbatim>\<open>existing\<close>, the second acts on the store as it is by
  then, by the value that was read.
\<close>

definition KVStore_cacheGraceResponse_get :: "string \<Rightarrow> string \<Rightarrow> storage \<Rightarrow> stored option" where
  "KVStore_cacheGraceResponse_get pid graceKey kv = storage_get kv (grace_key pid graceKey)"

definition KVStore_cacheGraceResponse_put ::
  "string \<Rightarrow> string \<Rightarrow> int \<Rightarrow> decision \<Rightarrow> stored option \<Rightarrow> storage \<Rightarrow> storage" where
  "KVStore_cacheGraceResponse_put pid graceKey ttlSeconds response existing kv =
     (case existing of
        None \<Rightarrow> storage_put kv (grace_key pid graceKey) (Doc response) (Some ttlSeconds)
      | Some found \<Rightarrow> kv)"

text \<open>A call that runs alone: nothing touches the store between its read and its write.\<close>

definition KVStore_cacheGraceResponse ::
  "string \<Rightarrow> string \<Rightarrow> int \<Rightarrow> decision \<Rightarrow> storage \<Rightarrow> storage" where
  "KVStore_cacheGraceResponse pid graceKey ttlSeconds response kv =
     KVStore_cacheGraceResponse_put pid graceKey ttlSeconds response
       (KVStore_cacheGraceResponse_get pid graceKey kv) kv"

text \<open>
  Two calls that overlap: both reads are served before the first write arrives, then the
  two writes follow in the order of the calls.
\<close>

definition KVStore_cacheGraceResponse_overlapped ::
  "string \<Rightarrow> string \<Rightarrow> int \<Rightarrow> decision \<Rightarrow> int \<Rightarrow> decision \<Rightarrow> storage \<Rightarrow> storage" where
  "KVStore_cacheGraceResponse_overlapped pid graceKey ttl1 response1 ttl2 response2 kv =
     (let existing1 = KVStore_cacheGraceResponse_get pid graceKey kv;
          existing2 = KVStore_cacheGraceResponse_get pid graceKey kv;
          kv1 = KVStore_cacheGraceResponse_put pid graceKey ttl1 response1 existing1 kv
      in KVStore_cacheGraceResponse_put pid graceKey ttl2 response2 existing2 kv1)"

section \<open>Durable Object (atomic backend)\<close>

text \<open>
  \<^verbatim>\<open>BrassCounterDO.handleSpend\<close> on the object's own storage; the result is the HTTP status
  and the JSON body of the \<^verbatim>\<open>Response\<close>. The fallback's \<^verbatim>\<open>put('count', legacyCount)\<close>
  passes no options.
\<close>

definition BrassCounterDO_count :: "storage \<Rightarrow> int \<times> storage" where
  "BrassCounterDO_count st =
     (let count = parseCount (storage_get st ''count'')
      in if count = 0 \<and> enableMigrationFallback then
           (let legacyCount = parseCount (storage_get st ''legacy_count'')
            in if legacyCount > 0
               then (legacyCount, storage_put st ''count'' (Num legacyCount) None)
               else (count, st))
         else (count, st))"

definition BrassCounterDO_handleSpend ::
  "string \<Rightarrow> string \<Rightarrow> int \<Rightarrow> int \<Rightarrow> storage \<Rightarrow> (nat \<times> decision) \<times> storage" where
  "BrassCounterDO_handleSpend pid IK limit ttlSeconds st =
     (let ikKey = ik_key pid IK
      in case storage_get st ikKey of
           Some existingResponse \<Rightarrow>
             (let cached = parseDecision existingResponse;
                  status = (if ok cached then 200 else 429)
              in ((status, cached\<lparr>idempotent := Some True\<rparr>), st))
         | None \<Rightarrow>
             (case BrassCounterDO_count st of
                (count, st1) \<Rightarrow>
                  if count \<ge> limit then
                    ((429, failureResponse),
                     storage_put st1 ikKey (Doc failureResponse) (Some ttlSeconds))
                  else
                    (let count' = count + 1;
                         rem = max 0 (limit - count')
                     in ((200, successResponse rem),
                         storage_put
                           (storage_put st1 ''count'' (Num count') (Some ttlSeconds))
                           ikKey (Doc (successResponse rem)) (Some ttlSeconds)))))"

definition BrassCounterDO_handleGraceCheck :: "string \<Rightarrow> string \<Rightarrow> storage \<Rightarrow> decision option" where
  "BrassCounterDO_handleGraceCheck pid graceKey st =
     (case storage_get st (grace_key pid graceKey) of
        Some cached \<Rightarrow> Some (parseDecision cached)
      | None \<Rightarrow> None)"

text \<open>
  \<^verbatim>\<open>handleGraceCache\<close> reads and writes the object's own storage. A Durable Object handles
  the requests sent to it one after the other and admits no other request while it awaits
  its storage, so the read and the write are one step (\<^verbatim>\<open>Atomic SETNX\<close> in the source).
\<close>

definition BrassCounterDO_handleGraceCache ::
  "string \<Rightarrow> string \<Rightarrow> int \<Rightarrow> decision \<Rightarrow> storage \<Rightarrow> storage" where
  "BrassCounterDO_handleGraceCache pid graceKey ttlSeconds response st =
     (case storage_get st (grace_key pid graceKey) of
        None \<Rightarrow> storage_put st (grace_key pid graceKey) (Doc response) (Some ttlSeconds)
      | Some existing \<Rightarrow> st)"

text \<open>
  The adapter \<^verbatim>\<open>DurableObjectStore\<close>. The binding \<^verbatim>\<open>idFromName\<close> gives every name its own
  object, so the backend's state is a family of storages indexed by name. \<^verbatim>\<open>response.ok\<close>
  of a fetch \<^verbatim>\<open>Response\<close> holds for a status from 200 to 299.
\<close>

type_synonym objects = "string \<Rightarrow> storage"

definition response_ok :: "nat \<Rightarrow> bool" where
  "response_ok status = (200 \<le> status \<and> status \<le> 299)"

definition DurableObjectStore_spend ::
  "(counter_key \<Rightarrow> string) \<Rightarrow> counter_key \<Rightarrow> string \<Rightarrow> int \<Rightarrow> int \<Rightarrow> objects
     \<Rightarrow> decision \<times> objects" where
  "DurableObjectStore_spend bck key IK limit ttlSeconds dos =
     (let counterKey = bck key
      in case BrassCounterDO_handleSpend (k_projectId key) IK limit ttlSeconds (dos counterKey) of
           ((status, body), st') \<Rightarrow>
             (let dos' = dos(counterKey := st')
              in if \<not> response_ok status then
                   (\<lparr>ok = False,
                     error = Some (case error body of
                                     None \<Rightarrow> ''unknown_error''
                                   | Some e \<Rightarrow> if e = [] then ''unknown_error'' else e),
                     remaining = None, idempotent = None\<rparr>, dos')
                 else (body, dos')))"

definition grace_object :: "string \<Rightarrow> string \<Rightarrow> string" where
  "grace_object pid graceKey = ''grace:'' @ pid @ '':'' @ graceKey"

definition DurableObjectStore_guardGrace ::
  "string \<Rightarrow> string \<Rightarrow> int \<Rightarrow> objects \<Rightarrow> decision option" where
  "DurableObjectStore_guardGrace pid graceKey ttlSeconds dos =
     BrassCounterDO_handleGraceCheck pid graceKey (dos (grace_object pid graceKey))"

definition DurableObjectStore_cacheGraceResponse ::
  "string \<Rightarrow> string \<Rightarrow> int \<Rightarrow> decision \<Rightarrow> objects \<Rightarrow> objects" where
  "DurableObjectStore_cacheGraceResponse pid graceKey ttlSeconds response dos =
     dos(grace_object pid graceKey :=
           BrassCounterDO_handleGraceCache pid graceKey ttlSeconds response
             (dos (grace_object pid graceKey)))"

section \<open>Spend handler: data\<close>

unbundle bit_operations_syntax

text \<open>
  A \<^verbatim>\<open>Uint8Array\<close> is a list of bytes. A JavaScript string is represented by its UTF-8
  bytes (a \<open>string\<close> of HOL is a list of 8-bit characters), so \<^verbatim>\<open>utf8ToBytes\<close> only
  changes the type. An argument of the variadic \<^verbatim>\<open>H3\<close> is a string or a byte array.
\<close>

type_synonym bytes = "8 word list"

datatype part = Str string | Raw bytes

definition utf8ToBytes :: "string \<Rightarrow> bytes" where
  "utf8ToBytes s = map of_char s"

text \<open>
  The parsed presentation. The fields the handler dereferences without a test are
  present; the optional ones are \<open>None\<close> when the JSON object lacks them.
\<close>

record dleq_pair =
  pi_c :: string
  pi_r :: string

record payload =
  p_KID :: string
  p_AADr :: string
  p_origin :: string
  p_epoch :: int
  p_c :: string
  p_Z :: string
  p_Zprime :: string
  p_P :: string
  p_M :: string
  p_piI :: dleq_pair
  p_piC :: dleq_pair
  p_d_client :: "string option"
  p_tls_exporter_b64 :: "string option"
  p_http_method :: "string option"
  p_http_path :: "string option"
  p_http_body_hash_b64 :: "string option"

text \<open>
  The request as the handler reads it: \<^verbatim>\<open>request.method\<close>, the path of
  \<^verbatim>\<open>new URL(request.url)\<close>, the \<^verbatim>\<open>authorization\<close> header and \<^verbatim>\<open>await request.text()\<close>.
\<close>

record request =
  r_method :: string
  r_pathname :: string
  r_authorization :: "string option"
  r_bodyText :: string

text \<open>
  The bindings of \<^verbatim>\<open>env\<close>. \<^verbatim>\<open>BRASS_KV\<close> is bound (it is the KV storage of the world
  below); \<^verbatim>\<open>BRASS_RATE_LIMIT\<close> and \<^verbatim>\<open>BOUNDARY_GRACE_SECONDS\<close> hold the integer that
  \<^verbatim>\<open>parseInt\<close> reads from a set, non-empty value.
\<close>

record env =
  BRASS_USE_ENV_AUTH :: bool
  BRASS_SECRET_KEY :: "string option"
  BRASS_PROJECT_ID :: "string option"
  BRASS_RATE_LIMIT :: "int option"
  BRASS_ISSUER_PUBKEY :: string
  BRASS_KV_SECRET :: string
  STORAGE_BACKEND :: "string option"
  BRASS_COUNTER_bound :: bool
  BOUNDARY_GRACE_SECONDS :: "int option"

text \<open>The answer of \<^verbatim>\<open>lookupApiKey\<close>.\<close>

record key_data =
  kd_valid :: bool
  kd_error :: "string option"
  kd_projectId :: string
  kd_limit :: "int option"

text \<open>
  The bodies the handler writes, one constructor for each \<^verbatim>\<open>JSON.stringify\<close> literal:
  the health report (\<open>ts\<close>, \<open>mode\<close>), \<^verbatim>\<open>{ error }\<close>, the grace replay
  \<^verbatim>\<open>{ ...cachedResponse, grace: true, windowUsed: 'grace_cached' }\<close>, the denial
  \<^verbatim>\<open>{ error, remaining, windowUsed }\<close> and the success
  \<^verbatim>\<open>{ ok: true, remaining, idempotent, windowUsed }\<close>.
\<close>

datatype reply_body =
    Plain string
  | JHealth int string
  | JError string
  | JGrace decision
  | JDenied "string option" int string
  | JSuccess "int option" bool string

record response =
  http_status :: nat
  http_body :: reply_body

text \<open>
  The functions the handler imports and that are not part of it: the curve and the
  hashes of the noble libraries, \<^verbatim>\<open>JSON.parse\<close>, and the helpers of
  \<^verbatim>\<open>shared/crypto.js\<close>, \<^verbatim>\<open>shared/api-key-lookup.js\<close> and
  \<^verbatim>\<open>shared/storage-interface.js\<close>. They are parameters of the model. A function that
  can throw returns a sum, with the message of the exception on the left. The functions
  that read the clock take the time in milliseconds.
\<close>

record 'p prims =
  JSON_parse :: "string \<Rightarrow> string + payload"
  lookupApiKey :: "string \<Rightarrow> storage \<Rightarrow> key_data"
  toUpperCase :: "string \<Rightarrow> string"
  sha256 :: "bytes \<Rightarrow> bytes"
  H3 :: "part list \<Rightarrow> bytes"
  b64urlToBytes :: "string \<Rightarrow> bytes"
  bytesToB64url :: "bytes \<Rightarrow> string"
  secretToBytes :: "string \<Rightarrow> bytes"
  pt_fromHex :: "bytes \<Rightarrow> 'p option"
  pt_assertValidity :: "'p \<Rightarrow> string option"
  pt_ZERO :: 'p
  pt_BASE :: 'p
  pt_equals :: "'p \<Rightarrow> 'p \<Rightarrow> bool"
  pt_multiply :: "'p \<Rightarrow> int \<Rightarrow> string + 'p"
  pt_add :: "'p \<Rightarrow> 'p \<Rightarrow> 'p"
  pt_toRawBytes :: "'p \<Rightarrow> bytes"
  CURVE_n :: int
  canonicalOrigin :: "string \<Rightarrow> string + string"
  currentEpochDays :: "int \<Rightarrow> string"
  windowId :: "string \<Rightarrow> string"
  parsePolicyId :: "string \<Rightarrow> string"
  deriveEta :: "string \<Rightarrow> string \<Rightarrow> string \<Rightarrow> string \<Rightarrow> string \<Rightarrow> bytes"
  deriveNullifierY :: "string \<Rightarrow> string \<Rightarrow> string \<Rightarrow> bytes \<Rightarrow> bytes"
  deriveTlsBinding :: "bytes option \<Rightarrow> bytes"
  deriveIdempotencyKey :: "bytes \<Rightarrow> bytes \<Rightarrow> string \<Rightarrow> string"
  deriveGraceNullifier ::
    "string \<Rightarrow> string \<Rightarrow> string \<Rightarrow> string \<Rightarrow> string \<Rightarrow> string \<Rightarrow> string \<Rightarrow> string \<Rightarrow> bytes"
  isInGracePeriod :: "int \<Rightarrow> int \<Rightarrow> bool"
  secondsUntilWindowEnd :: "int \<Rightarrow> string \<Rightarrow> int"
  buildCounterKey :: "counter_key \<Rightarrow> string"
  buildLegacyCounterKey :: "counter_key \<Rightarrow> string"

text \<open>
  Control flow inside the handler's \<^verbatim>\<open>try\<close> block: a step goes on with a value, returns
  a response early, or throws an exception with a message.
\<close>

datatype 'a flow = Next 'a | Return response | Throw string

fun andThen :: "'a flow \<Rightarrow> ('a \<Rightarrow> 'b flow) \<Rightarrow> 'b flow" where
  "andThen (Next x) f = f x"
| "andThen (Return r) f = Return r"
| "andThen (Throw e) f = Throw e"

definition attempt :: "string + 'a \<Rightarrow> 'a flow" where
  "attempt x = (case x of Inl e \<Rightarrow> Throw e | Inr v \<Rightarrow> Next v)"

section \<open>Spend handler: verification\<close>

definition CONFIG_LABEL_DLEQ :: string where
  "CONFIG_LABEL_DLEQ = ''OPRF_METERING_DLEQ_v1''"

definition CONFIG_LABEL_HTTP_CTX :: string where
  "CONFIG_LABEL_HTTP_CTX = ''HTTP_CTX_v1''"

definition CONFIG_PROTOCOL_VERSION :: string where
  "CONFIG_PROTOCOL_VERSION = ''BRASS_v2.0''"

definition CONFIG_CIPHER_SUITE :: string where
  "CONFIG_CIPHER_SUITE = ''P256_SHA256''"

definition CONFIG_DEFAULT_RATE_LIMIT :: int where
  "CONFIG_DEFAULT_RATE_LIMIT = 10"

text \<open>The remainder \<^verbatim>\<open>%\<close> of BigInt takes the sign of the dividend.\<close>

definition js_rem :: "int \<Rightarrow> int \<Rightarrow> int" where
  "js_rem x m = sgn x * (\<bar>x\<bar> mod \<bar>m\<bar>)"

definition modN :: "int \<Rightarrow> int \<Rightarrow> int" where
  "modN n x = (let r = js_rem x n in if r < 0 then r + n else r)"

text \<open>
  \<^verbatim>\<open>bytesToBig\<close> reads the bytes as a big-endian number; on the empty array it calls
  \<^verbatim>\<open>BigInt('0x')\<close>, which throws a SyntaxError.
\<close>

definition bytesToBig :: "bytes \<Rightarrow> string + int" where
  "bytesToBig b =
     (if b = [] then Inl ''Cannot convert 0x to a BigInt''
      else Inr (foldl (\<lambda>acc x. acc * 256 + uint x) 0 b))"

fun ctAcc :: "8 word \<Rightarrow> bytes \<Rightarrow> bytes \<Rightarrow> 8 word" where
  "ctAcc v (x # xs) (z # zs) = ctAcc (v OR (x XOR z)) xs zs"
| "ctAcc v xs zs = v"

definition ctEqual :: "bytes \<Rightarrow> bytes \<Rightarrow> bool" where
  "ctEqual a b = (if length a \<noteq> length b then False else ctAcc 0 a b = 0)"

definition truthy :: "string option \<Rightarrow> bool" where
  "truthy v = (case v of None \<Rightarrow> False | Some s \<Rightarrow> s \<noteq> [])"

definition orElse :: "string option \<Rightarrow> string \<Rightarrow> string" where
  "orElse v dflt = (case v of None \<Rightarrow> dflt | Some s \<Rightarrow> if s = [] then dflt else s)"

definition dleqVerify ::
  "'p prims \<Rightarrow> string \<Rightarrow> 'p \<Rightarrow> 'p \<Rightarrow> 'p \<Rightarrow> 'p \<Rightarrow> 'p \<Rightarrow> 'p \<Rightarrow> int \<Rightarrow> int \<Rightarrow> bytes
     \<Rightarrow> string + bool" where
  "dleqVerify pr label g1 h1 g2 h2 A1 A2 c r bind =
     (let challenge =
            H3 pr [Str (''BRASS:'' @ label @ '':''),
                   Raw (pt_toRawBytes pr g1), Raw (pt_toRawBytes pr h1),
                   Raw (pt_toRawBytes pr g2), Raw (pt_toRawBytes pr h2),
                   Raw (pt_toRawBytes pr A1), Raw (pt_toRawBytes pr A2),
                   Raw bind]
      in case bytesToBig challenge of
           Inl e \<Rightarrow> Inl e
         | Inr v \<Rightarrow> Inr (modN (CURVE_n pr) v = c))"

definition decodePoint :: "'p prims \<Rightarrow> string \<Rightarrow> string + 'p" where
  "decodePoint pr b64 =
     (case pt_fromHex pr (b64urlToBytes pr b64) of
        None \<Rightarrow> Inl ''invalid_point_encoding''
      | Some pt \<Rightarrow>
          (case pt_assertValidity pr pt of
             Some msg \<Rightarrow> Inl msg
           | None \<Rightarrow>
               if pt_equals pr pt (pt_ZERO pr) then Inl ''invalid_point_infinity''
               else Inr pt))"

definition error_response :: "nat \<Rightarrow> string \<Rightarrow> response" where
  "error_response st kind = \<lparr>http_status = st, http_body = JError kind\<rparr>"

text \<open>API-key authentication (lines 141-180): the tenant and its limit, or a 401.\<close>

definition authenticate :: "'p prims \<Rightarrow> env \<Rightarrow> request \<Rightarrow> storage \<Rightarrow> (string \<times> int) flow" where
  "authenticate pr env req kv =
     (let auth = (case r_authorization req of None \<Rightarrow> [] | Some a \<Rightarrow> a)
      in if take 7 auth \<noteq> ''Bearer '' then Return (error_response 401 ''missing_api_key'')
         else
           (let apiKey = drop 7 auth
            in if \<not> BRASS_USE_ENV_AUTH env then
                 (let keyData = lookupApiKey pr apiKey kv
                  in if \<not> kd_valid keyData then
                       Return (error_response 401 (orElse (kd_error keyData) ''invalid_api_key''))
                     else
                       Next (kd_projectId keyData,
                             (case kd_limit keyData of
                                None \<Rightarrow> CONFIG_DEFAULT_RATE_LIMIT
                              | Some l \<Rightarrow> if l = 0 then CONFIG_DEFAULT_RATE_LIMIT else l)))
               else if Some apiKey \<noteq> BRASS_SECRET_KEY env then
                 Return (error_response 401 ''invalid_api_key'')
               else
                 Next (orElse (BRASS_PROJECT_ID env) ''default'',
                       (case BRASS_RATE_LIMIT env of
                          None \<Rightarrow> CONFIG_DEFAULT_RATE_LIMIT
                        | Some l \<Rightarrow> l))))"

text \<open>The request binding \<open>d\<close> (lines 206-219), from the overrides or from the live request.\<close>

definition compute_d :: "'p prims \<Rightarrow> request \<Rightarrow> payload \<Rightarrow> bytes" where
  "compute_d pr req pl =
     (if truthy (p_http_method pl) \<and> truthy (p_http_path pl) \<and> truthy (p_http_body_hash_b64 pl)
      then H3 pr [Str (''BRASS:'' @ CONFIG_LABEL_HTTP_CTX @ '':''),
                  Str (toUpperCase pr (orElse (p_http_method pl) [])),
                  Str (orElse (p_http_path pl) []),
                  Raw (b64urlToBytes pr (orElse (p_http_body_hash_b64 pl) []))]
      else H3 pr [Str (''BRASS:'' @ CONFIG_LABEL_HTTP_CTX @ '':''),
                  Str (toUpperCase pr (r_method req)),
                  Str (r_pathname req),
                  Raw (sha256 pr (utf8ToBytes (r_bodyText req)))])"

text \<open>The issuer proof (lines 229-245): both commitments are reconstructed.\<close>

definition piI_check :: "'p prims \<Rightarrow> 'p \<Rightarrow> 'p \<Rightarrow> 'p \<Rightarrow> int \<Rightarrow> int \<Rightarrow> bool flow" where
  "piI_check pr Y Mpt Zpt cI rI =
     andThen (attempt (pt_multiply pr (pt_BASE pr) rI)) (\<lambda>Gr.
     andThen (attempt (pt_multiply pr Y cI)) (\<lambda>Yc.
     andThen (attempt (pt_multiply pr Mpt rI)) (\<lambda>Mr.
     andThen (attempt (pt_multiply pr Zpt cI)) (\<lambda>Zc.
       attempt (dleqVerify pr CONFIG_LABEL_DLEQ (pt_BASE pr) Y Mpt Zpt
                  (pt_add pr Gr Yc) (pt_add pr Mr Zc) cI rI [])))))"

text \<open>
  The client proof (lines 317-330): \<^verbatim>\<open>A1c\<close> is reconstructed, \<^verbatim>\<open>A2c\<close> is the
  generator itself.
\<close>

definition piC_check :: "'p prims \<Rightarrow> 'p \<Rightarrow> 'p \<Rightarrow> int \<Rightarrow> int \<Rightarrow> bytes \<Rightarrow> bool flow" where
  "piC_check pr Ppt Mpt cC rC bindC =
     andThen (attempt (pt_multiply pr Ppt rC)) (\<lambda>Pr.
     andThen (attempt (pt_multiply pr Mpt cC)) (\<lambda>Mc.
       (let A1c = pt_add pr Pr Mc;
            A2c = pt_BASE pr
        in attempt (dleqVerify pr CONFIG_LABEL_DLEQ Ppt Mpt (pt_BASE pr) (pt_BASE pr)
                      A1c A2c cC rC bindC))))"

text \<open>
  What the handler has in hand once both proofs are accepted: the tenant and its limit,
  the server-derived context and the nullifier \<open>y\<close>, and the fields of the presentation
  that the rest of the handler reads.
\<close>

record derived =
  v_projectId :: string
  v_limit :: int
  v_originCanonical :: string
  v_epochDays :: string
  v_policyId :: string
  v_window :: string
  v_y :: bytes
  v_Zprime :: string
  v_KID :: string
  v_AADr :: string
  v_c :: string

definition bindC_of ::
  "'p prims \<Rightarrow> payload \<Rightarrow> bytes \<Rightarrow> bytes \<Rightarrow> string \<Rightarrow> string \<Rightarrow> bytes \<Rightarrow> bytes" where
  "bindC_of pr pl y d win policyId eta =
     (let tlsExporterBytes =
            (if truthy (p_tls_exporter_b64 pl)
             then Some (b64urlToBytes pr (orElse (p_tls_exporter_b64 pl) []))
             else None);
          tlsBinding = deriveTlsBinding pr tlsExporterBytes
      in H3 pr [Str ''BIND'', Raw y, Raw (b64urlToBytes pr (p_c pl)), Raw d, Raw tlsBinding,
                Raw (utf8ToBytes win), Raw (utf8ToBytes CONFIG_CIPHER_SUITE),
                Raw (utf8ToBytes CONFIG_PROTOCOL_VERSION), Raw (utf8ToBytes policyId),
                Raw (utf8ToBytes (p_AADr pl)), Raw (utf8ToBytes (p_KID pl)), Raw eta])"

text \<open>
  The encoded points that the handler hands to \<^verbatim>\<open>decodePoint\<close> (lines 222-228), in the
  order of the calls: \<open>P\<close>, \<open>M\<close>, \<open>Z\<close>, \<open>Zprime\<close> and the issuer's public key.
\<close>

definition decoded_fields :: "env \<Rightarrow> payload \<Rightarrow> string list" where
  "decoded_fields env pl = [p_P pl, p_M pl, p_Z pl, p_Zprime pl, BRASS_ISSUER_PUBKEY env]"

text \<open>
  Lines 221-265 on a parsed presentation and its binding \<open>d\<close>: point decoding, the issuer
  proof and the \<^verbatim>\<open>d_client\<close> cross-check. The decoded \<open>P\<close> and \<open>M\<close> are what the client
  proof needs later.
\<close>

definition issuer_checks :: "'p prims \<Rightarrow> env \<Rightarrow> bytes \<Rightarrow> payload \<Rightarrow> ('p \<times> 'p) flow" where
  "issuer_checks pr env d pl =
     andThen (attempt (decodePoint pr (p_P pl))) (\<lambda>Ppt.
     andThen (attempt (decodePoint pr (p_M pl))) (\<lambda>Mpt.
     andThen (attempt (decodePoint pr (p_Z pl))) (\<lambda>Zpt.
     andThen (attempt (decodePoint pr (p_Zprime pl))) (\<lambda>Zppt.
     andThen (attempt (decodePoint pr (BRASS_ISSUER_PUBKEY env))) (\<lambda>Y.
     andThen (attempt (bytesToBig (b64urlToBytes pr (pi_c (p_piI pl))))) (\<lambda>cI.
     andThen (attempt (bytesToBig (b64urlToBytes pr (pi_r (p_piI pl))))) (\<lambda>rI.
     andThen (piI_check pr Y Mpt Zpt cI rI) (\<lambda>okI.
       if \<not> okI then Return (error_response 401 ''invalid_piI'')
       else if truthy (p_d_client pl)
               \<and> \<not> ctEqual d (b64urlToBytes pr (orElse (p_d_client pl) []))
       then Return (error_response 401 ''d_mismatch'')
       else Next (Ppt, Mpt)))))))))"

text \<open>
  Lines 267-338: the server-side derivation and the client proof. The payload's
  \<^verbatim>\<open>epoch\<close> is bound by the destructuring and not read again; \<^verbatim>\<open>epochDays\<close> comes from
  the clock.
\<close>

definition client_checks ::
  "'p prims \<Rightarrow> env \<Rightarrow> int \<Rightarrow> bytes \<Rightarrow> payload \<Rightarrow> string \<times> int \<Rightarrow> 'p \<Rightarrow> 'p \<Rightarrow> derived flow" where
  "client_checks pr env now d pl auth Ppt Mpt =
     andThen (attempt (canonicalOrigin pr (p_origin pl))) (\<lambda>originCanonical.
       (let epochDays = currentEpochDays pr now;
            policyId = parsePolicyId pr (p_AADr pl);
            win = windowId pr epochDays;
            eta = deriveEta pr (BRASS_ISSUER_PUBKEY env) originCanonical epochDays policyId win;
            y = deriveNullifierY pr (p_Zprime pl) (p_KID pl) (p_AADr pl) eta
        in
     andThen (attempt (bytesToBig (b64urlToBytes pr (pi_c (p_piC pl))))) (\<lambda>cC.
     andThen (attempt (bytesToBig (b64urlToBytes pr (pi_r (p_piC pl))))) (\<lambda>rC.
     andThen (piC_check pr Ppt Mpt cC rC (bindC_of pr pl y d win policyId eta)) (\<lambda>okC.
       if \<not> okC then Return (error_response 401 ''invalid_piC'')
       else Next \<lparr>v_projectId = fst auth, v_limit = snd auth,
                   v_originCanonical = originCanonical, v_epochDays = epochDays,
                   v_policyId = policyId, v_window = win, v_y = y,
                   v_Zprime = p_Zprime pl, v_KID = p_KID pl, v_AADr = p_AADr pl,
                   v_c = p_c pl\<rparr>)))))"

definition verify_payload ::
  "'p prims \<Rightarrow> env \<Rightarrow> int \<Rightarrow> bytes \<Rightarrow> payload \<Rightarrow> string \<times> int \<Rightarrow> derived flow" where
  "verify_payload pr env now d pl auth =
     andThen (issuer_checks pr env d pl) (\<lambda>pts.
       client_checks pr env now d pl auth (fst pts) (snd pts))"

text \<open>Lines 183-338: the body is read and parsed, \<open>d\<close> is computed, the rest follows.\<close>

definition verify :: "'p prims \<Rightarrow> env \<Rightarrow> int \<Rightarrow> request \<Rightarrow> string \<times> int \<Rightarrow> derived flow" where
  "verify pr env now req auth =
     andThen (attempt (JSON_parse pr (r_bodyText req))) (\<lambda>pl.
       verify_payload pr env now (compute_d pr req pl) pl auth)"

text \<open>Everything the handler does to a POST request before it touches the counter store.\<close>

definition pre_spend :: "'p prims \<Rightarrow> env \<Rightarrow> int \<Rightarrow> request \<Rightarrow> storage \<Rightarrow> derived flow" where
  "pre_spend pr env now req kv =
     andThen (authenticate pr env req kv) (\<lambda>auth. verify pr env now req auth)"

section \<open>Spend handler: grace guard, spend and reply\<close>

text \<open>
  The persistent state the handler can reach: the KV namespace \<^verbatim>\<open>env.BRASS_KV\<close> and the
  Durable Objects behind \<^verbatim>\<open>env.BRASS_COUNTER\<close>.
\<close>

record world =
  w_kv :: storage
  w_do :: objects

datatype backend = KV | DurableObjects

definition choose_store :: "env \<Rightarrow> backend" where
  "choose_store env =
     (if orElse (STORAGE_BACKEND env) ''kv'' = ''durable_objects'' \<and> BRASS_COUNTER_bound env
      then DurableObjects else KV)"

definition store_spend ::
  "'p prims \<Rightarrow> backend \<Rightarrow> counter_key \<Rightarrow> string \<Rightarrow> int \<Rightarrow> int \<Rightarrow> world \<Rightarrow> decision \<times> world" where
  "store_spend pr b key IK limit ttlSeconds w =
     (case b of
        KV \<Rightarrow>
          (case KVStore_spend (buildCounterKey pr) (buildLegacyCounterKey pr) key IK limit
                  ttlSeconds (w_kv w) of
             (res, kv') \<Rightarrow> (res, w\<lparr>w_kv := kv'\<rparr>))
      | DurableObjects \<Rightarrow>
          (case DurableObjectStore_spend (buildCounterKey pr) key IK limit ttlSeconds (w_do w) of
             (res, dos') \<Rightarrow> (res, w\<lparr>w_do := dos'\<rparr>)))"

definition store_guardGrace :: "backend \<Rightarrow> string \<Rightarrow> string \<Rightarrow> int \<Rightarrow> world \<Rightarrow> decision option" where
  "store_guardGrace b pid graceKey ttlSeconds w =
     (case b of
        KV \<Rightarrow> KVStore_guardGrace pid graceKey ttlSeconds (w_kv w)
      | DurableObjects \<Rightarrow> DurableObjectStore_guardGrace pid graceKey ttlSeconds (w_do w))"

definition store_cacheGraceResponse ::
  "backend \<Rightarrow> string \<Rightarrow> string \<Rightarrow> int \<Rightarrow> decision \<Rightarrow> world \<Rightarrow> world" where
  "store_cacheGraceResponse b pid graceKey ttlSeconds res w =
     (case b of
        KV \<Rightarrow> w\<lparr>w_kv := KVStore_cacheGraceResponse pid graceKey ttlSeconds res (w_kv w)\<rparr>
      | DurableObjects \<Rightarrow>
          w\<lparr>w_do := DurableObjectStore_cacheGraceResponse pid graceKey ttlSeconds res (w_do w)\<rparr>)"

definition boundaryGraceSeconds :: "env \<Rightarrow> int" where
  "boundaryGraceSeconds env = (case BOUNDARY_GRACE_SECONDS env of None \<Rightarrow> 60 | Some g \<Rightarrow> g)"

text \<open>\<^verbatim>\<open>bytesToB64url(deriveGraceNullifier(...))\<close>, computed alike at lines 366-376 and 453-463.\<close>

definition graceKey_of :: "'p prims \<Rightarrow> env \<Rightarrow> derived \<Rightarrow> string" where
  "graceKey_of pr env v =
     bytesToB64url pr
       (deriveGraceNullifier pr (v_Zprime v) (v_KID v)
          (BRASS_ISSUER_PUBKEY env) (v_originCanonical v) (v_policyId v)
          CONFIG_CIPHER_SUITE CONFIG_PROTOCOL_VERSION (v_AADr v))"

definition counter_key_of :: "'p prims \<Rightarrow> env \<Rightarrow> derived \<Rightarrow> counter_key" where
  "counter_key_of pr env v =
     \<lparr>k_projectId = v_projectId v, k_issuerPk = BRASS_ISSUER_PUBKEY env,
      k_origin = v_originCanonical v, k_epoch = v_epochDays v, k_policy = v_policyId v,
      k_window = v_window v, k_y = bytesToB64url pr (v_y v)\<rparr>"

definition IK_of :: "'p prims \<Rightarrow> env \<Rightarrow> derived \<Rightarrow> string" where
  "IK_of pr env v =
     deriveIdempotencyKey pr (secretToBytes pr (BRASS_KV_SECRET env)) (v_y v) (v_c v)"

text \<open>
  Lines 358-426. The result is the replayed response, or the value of \<^verbatim>\<open>graceHit\<close> with
  which the handler goes on to the spend: the variable is set on a hit and reset when the
  cached response is a denial.
\<close>

definition grace_guard :: "'p prims \<Rightarrow> env \<Rightarrow> int \<Rightarrow> derived \<Rightarrow> world \<Rightarrow> response + bool" where
  "grace_guard pr env now v w =
     (if isInGracePeriod pr now (boundaryGraceSeconds env) then
        (case store_guardGrace (choose_store env) (v_projectId v) (graceKey_of pr env v)
                (boundaryGraceSeconds env) w of
           Some cachedResponse \<Rightarrow>
             if ok cachedResponse
             then Inl \<lparr>http_status = 200, http_body = JGrace cachedResponse\<rparr>
             else Inr False
         | None \<Rightarrow> Inr False)
      else Inr False)"

definition reply :: "string \<Rightarrow> decision \<Rightarrow> response" where
  "reply win res =
     (if \<not> ok res then
        \<lparr>http_status = 429,
         http_body = JDenied (error res) (case remaining res of None \<Rightarrow> 0 | Some r \<Rightarrow> r) win\<rparr>
      else
        \<lparr>http_status = 200,
         http_body = JSuccess (remaining res)
                       (case idempotent res of None \<Rightarrow> False | Some i \<Rightarrow> i) win\<rparr>)"

text \<open>
  Lines 428-511. The grace write is handed to \<^verbatim>\<open>ctx.waitUntil\<close>; the world returned is the
  one after it has completed.
\<close>

definition spend_and_reply ::
  "'p prims \<Rightarrow> env \<Rightarrow> int \<Rightarrow> derived \<Rightarrow> bool \<Rightarrow> world \<Rightarrow> response \<times> world" where
  "spend_and_reply pr env now v graceHit w =
     (let ttlSeconds = secondsUntilWindowEnd pr now (v_epochDays v)
      in case store_spend pr (choose_store env) (counter_key_of pr env v) (IK_of pr env v)
                (v_limit v) ttlSeconds w of
           (res, w1) \<Rightarrow>
             (let w2 = (if isInGracePeriod pr now (boundaryGraceSeconds env) \<and> \<not> graceHit
                        then store_cacheGraceResponse (choose_store env) (v_projectId v)
                               (graceKey_of pr env v) (boundaryGraceSeconds env) res w1
                        else w1)
              in (reply (v_window v) res, w2)))"

definition finish :: "'p prims \<Rightarrow> env \<Rightarrow> int \<Rightarrow> derived \<Rightarrow> world \<Rightarrow> response \<times> world" where
  "finish pr env now v w =
     (case grace_guard pr env now v w of
        Inl resp \<Rightarrow> (resp, w)
      | Inr graceHit \<Rightarrow> spend_and_reply pr env now v graceHit w)"

text \<open>
  The handler \<^verbatim>\<open>fetch\<close>: the response and the world after the request. \<open>now\<close> is the
  time of the request, one reading for every \<^verbatim>\<open>Date.now()\<close> of the handler. Telemetry is
  emitted to an external sink and is not part of the response or of the counter store.
\<close>

definition fetch :: "'p prims \<Rightarrow> env \<Rightarrow> int \<Rightarrow> request \<Rightarrow> world \<Rightarrow> response \<times> world" where
  "fetch pr env now req w =
     (if r_method req = ''GET'' \<and> r_pathname req = ''/health'' then
        (\<lparr>http_status = 200, http_body = JHealth now (orElse (STORAGE_BACKEND env) ''kv'')\<rparr>, w)
      else if r_method req \<noteq> ''POST'' then
        (\<lparr>http_status = 405, http_body = Plain ''Method Not Allowed''\<rparr>, w)
      else
        (case pre_spend pr env now req (w_kv w) of
           Return resp \<Rightarrow> (resp, w)
         | Throw msg \<Rightarrow> (error_response 500 (if msg = [] then ''server_error'' else msg), w)
         | Next v \<Rightarrow> finish pr env now v w))"

section \<open>The verifier equation as the specification words it\<close>

text \<open>
  Reconstruct \<open>A1' = g1^r \<cdot> h1^c\<close> and \<open>A2' = g2^r \<cdot> h2^c\<close>, recompute the challenge
  \<open>c' = FS(g1, h1, g2, h2, A1', A2', bind, label)\<close>, accept iff \<open>c' \<equiv> c (mod n)\<close>.
\<close>

definition spec_FS ::
  "'p prims \<Rightarrow> string \<Rightarrow> 'p \<Rightarrow> 'p \<Rightarrow> 'p \<Rightarrow> 'p \<Rightarrow> 'p \<Rightarrow> 'p \<Rightarrow> bytes \<Rightarrow> string + int" where
  "spec_FS pr label g1 h1 g2 h2 A1 A2 bind =
     (case bytesToBig
             (H3 pr [Str (''BRASS:'' @ label @ '':''),
                     Raw (pt_toRawBytes pr g1), Raw (pt_toRawBytes pr h1),
                     Raw (pt_toRawBytes pr g2), Raw (pt_toRawBytes pr h2),
                     Raw (pt_toRawBytes pr A1), Raw (pt_toRawBytes pr A2), Raw bind]) of
        Inl e \<Rightarrow> Inl e
      | Inr v \<Rightarrow> Inr (v mod CURVE_n pr))"

definition spec_dleq_accept ::
  "'p prims \<Rightarrow> string \<Rightarrow> 'p \<Rightarrow> 'p \<Rightarrow> 'p \<Rightarrow> 'p \<Rightarrow> int \<Rightarrow> int \<Rightarrow> bytes \<Rightarrow> bool flow" where
  "spec_dleq_accept pr label g1 h1 g2 h2 c r bind =
     andThen (attempt (pt_multiply pr g1 r)) (\<lambda>g1r.
     andThen (attempt (pt_multiply pr h1 c)) (\<lambda>h1c.
     andThen (attempt (pt_multiply pr g2 r)) (\<lambda>g2r.
     andThen (attempt (pt_multiply pr h2 c)) (\<lambda>h2c.
     andThen (attempt (spec_FS pr label g1 h1 g2 h2 (pt_add pr g1r h1c) (pt_add pr g2r h2c) bind))
       (\<lambda>c'. Next (c' mod CURVE_n pr = c mod CURVE_n pr))))))"

section \<open>A small instance of the parameters\<close>

text \<open>
  To run the handler on concrete requests the parameters are instantiated: the group is
  the integers modulo 11 under addition with generator 1 (a point is encoded by the byte 2
  and its value), the hash adds up the bytes of its arguments, a character of an encoded
  string stands for the byte of its digit, and the parser of bodies knows the texts of one
  presentation with the epoch 20000 or 20001, with and without the HTTP overrides, the
  same presentation with another client proof, and five damaged ones (an empty point, the
  point at infinity, an origin that is not https, a wrong issuer proof, a wrong
  \<^verbatim>\<open>d_client\<close>).
\<close>

definition demo_b64urlToBytes :: "string \<Rightarrow> bytes" where
  "demo_b64urlToBytes s = map (\<lambda>ch. of_char ch - 48) s"

definition demo_bytesToB64url :: "bytes \<Rightarrow> string" where
  "demo_bytesToB64url b = map (\<lambda>x. ''0123456789'' ! (unat x mod 10)) b"

fun part_bytes :: "part \<Rightarrow> bytes" where
  "part_bytes (Str s) = utf8ToBytes s"
| "part_bytes (Raw b) = b"

definition demo_sum :: "bytes \<Rightarrow> bytes" where
  "demo_sum b = [of_nat (sum_list (map unat b) mod 256)]"

definition demo_H3 :: "part list \<Rightarrow> bytes" where
  "demo_H3 ps = demo_sum (concat (map part_bytes ps))"

definition demo_fromHex :: "bytes \<Rightarrow> nat option" where
  "demo_fromHex b =
     (case b of
        [t, v] \<Rightarrow> if t = 2 \<and> unat v < 11 then Some (unat v) else None
      | _ \<Rightarrow> None)"

definition demo_multiply :: "nat \<Rightarrow> int \<Rightarrow> string + nat" where
  "demo_multiply p k =
     (if 1 \<le> k \<and> k < 11 then Inr ((p * nat k) mod 11) else Inl ''invalid scalar'')"

definition demo_payload :: payload where
  "demo_payload =
     \<lparr>p_KID = ''kid-2025-11'', p_AADr = ''policy=comments'', p_origin = ''https://example.com'',
      p_epoch = 20000, p_c = ''99'', p_Z = ''25'', p_Zprime = ''24'', p_P = ''25'', p_M = ''29'',
      p_piI = \<lparr>pi_c = ''3'', pi_r = ''4''\<rparr>, p_piC = \<lparr>pi_c = ''5'', pi_r = ''3''\<rparr>,
      p_d_client = None, p_tls_exporter_b64 = None, p_http_method = None,
      p_http_path = None, p_http_body_hash_b64 = None\<rparr>"

definition demo_payload_overrides :: payload where
  "demo_payload_overrides =
     demo_payload\<lparr>p_piC := \<lparr>pi_c = ''5'', pi_r = ''5''\<rparr>, p_http_method := Some ''POST'',
       p_http_path := Some ''/verify'', p_http_body_hash_b64 := Some ''7''\<rparr>"

definition demo_JSON_parse :: "string \<Rightarrow> string + payload" where
  "demo_JSON_parse s =
     (if s = ''epoch=20000;a'' then Inr demo_payload
      else if s = ''epoch=20001;a'' then Inr (demo_payload\<lparr>p_epoch := 20001\<rparr>)
      else if s = ''epoch=20000;h'' then Inr demo_payload_overrides
      else if s = ''epoch=20001;h'' then Inr (demo_payload_overrides\<lparr>p_epoch := 20001\<rparr>)
      else if s = ''epoch=20000;P='' then Inr (demo_payload\<lparr>p_P := []\<rparr>)
      else if s = ''epoch=20000;O'' then Inr (demo_payload\<lparr>p_origin := ''http://example.com''\<rparr>)
      else if s = ''epoch=20000;b''
        then Inr (demo_payload\<lparr>p_piC := \<lparr>pi_c = ''9'', pi_r = ''3''\<rparr>\<rparr>)
      else if s = ''epoch=20000;Z0'' then Inr (demo_payload\<lparr>p_Z := ''20''\<rparr>)
      else if s = ''epoch=20000;I''
        then Inr (demo_payload\<lparr>p_piI := \<lparr>pi_c = ''4'', pi_r = ''4''\<rparr>\<rparr>)
      else if s = ''epoch=20000;D'' then Inr (demo_payload\<lparr>p_d_client := Some ''9''\<rparr>)
      else Inl ''Unexpected token'')"

definition demo_buildLegacyCounterKey :: "counter_key \<Rightarrow> string" where
  "demo_buildLegacyCounterKey k =
     k_issuerPk k @ ''|'' @ k_origin k @ ''|'' @ k_epoch k @ ''|'' @ k_policy k @ ''|''
       @ k_window k @ ''|'' @ k_y k"

definition demo_buildCounterKey :: "counter_key \<Rightarrow> string" where
  "demo_buildCounterKey k = ''project:'' @ k_projectId k @ ''|'' @ demo_buildLegacyCounterKey k"

definition demo_isInGracePeriod :: "int \<Rightarrow> int \<Rightarrow> bool" where
  "demo_isInGracePeriod now g =
     (now mod 86400000 < g * 1000 \<or> 86400000 - g * 1000 < now mod 86400000)"

definition demo :: "nat prims" where
  "demo =
     \<lparr>JSON_parse = demo_JSON_parse,
      lookupApiKey = (\<lambda>k kv. \<lparr>kd_valid = False, kd_error = None, kd_projectId = [],
                                kd_limit = None\<rparr>),
      toUpperCase = (\<lambda>s. s),
      sha256 = demo_sum,
      H3 = demo_H3,
      b64urlToBytes = demo_b64urlToBytes,
      bytesToB64url = demo_bytesToB64url,
      secretToBytes = demo_b64urlToBytes,
      pt_fromHex = demo_fromHex,
      pt_assertValidity = (\<lambda>p. None),
      pt_ZERO = 0,
      pt_BASE = 1,
      pt_equals = (\<lambda>p q. p = q),
      pt_multiply = demo_multiply,
      pt_add = (\<lambda>p q. (p + q) mod 11),
      pt_toRawBytes = (\<lambda>p. [2, of_nat p]),
      CURVE_n = 11,
      canonicalOrigin =
        (\<lambda>s. if take 8 s = ''https://'' then Inr s else Inl ''origin_must_be_https''),
      currentEpochDays = (\<lambda>now. if now < 1728000000000 then ''19999'' else ''20000''),
      windowId = (\<lambda>e. e),
      parsePolicyId = (\<lambda>a. if take 7 a = ''policy='' then drop 7 a else ''default''),
      deriveEta = (\<lambda>pk org e pol win.
        demo_H3 [Str ''BRASS_SALT_v1'', Str pk, Str org, Str e, Str pol, Str win]),
      deriveNullifierY = (\<lambda>z kid aadr eta.
        demo_H3 [Str ''BRASS_NULLIFIER_v1'', Str z, Str kid, Str aadr, Raw eta]),
      deriveTlsBinding = (\<lambda>ex. case ex of
          None \<Rightarrow> demo_H3 [Str ''no_exporter'']
        | Some e \<Rightarrow> demo_H3 [Str ''tls_exporter'', Raw e]),
      deriveIdempotencyKey = (\<lambda>sec yb c.
        demo_bytesToB64url (demo_H3 [Raw sec, Raw yb, Str c])),
      deriveGraceNullifier = (\<lambda>z kid pk org pol suite ver aadr.
        demo_H3 [Str ''BRASS_GRACE_v1'', Str z, Str kid, Str pk, Str org, Str pol, Str suite,
                 Str ver, Str aadr]),
      isInGracePeriod = demo_isInGracePeriod,
      secondsUntilWindowEnd = (\<lambda>now e. max 1 ((86400000 - now mod 86400000) div 1000)),
      buildCounterKey = demo_buildCounterKey,
      buildLegacyCounterKey = demo_buildLegacyCounterKey\<rparr>"

definition demo_env :: env where
  "demo_env =
     \<lparr>BRASS_USE_ENV_AUTH = True, BRASS_SECRET_KEY = Some ''test_api_key'',
      BRASS_PROJECT_ID = Some ''test_project'', BRASS_RATE_LIMIT = Some 3,
      BRASS_ISSUER_PUBKEY = ''23'', BRASS_KV_SECRET = ''77'',
      STORAGE_BACKEND = Some ''kv'', BRASS_COUNTER_bound = False,
      BOUNDARY_GRACE_SECONDS = None\<rparr>"

definition demo_request :: "string \<Rightarrow> request" where
  "demo_request b =
     \<lparr>r_method = ''POST'', r_pathname = ''/verify'',
      r_authorization = Some ''Bearer test_api_key'', r_bodyText = b\<rparr>"

definition empty_world :: world where
  "empty_world = \<lparr>w_kv = Map.empty, w_do = (\<lambda>name. Map.empty)\<rparr>"

text \<open>The request time of the examples: ten seconds after midnight of day 20000.\<close>

definition demo_now :: int where
  "demo_now = 1728000010000"

definition demo_key :: counter_key where
  "demo_key =
     \<lparr>k_projectId = ''test_project'', k_issuerPk = ''23'', k_origin = ''https://example.com'',
      k_epoch = ''20000'', k_policy = ''comments'', k_window = ''20000'', k_y = ''9''\<rparr>"

text \<open>A KV store and an object storage that hold only a legacy count of 5.\<close>

definition legacy_kv :: storage where
  "legacy_kv =
     storage_put Map.empty (count_key (demo_buildLegacyCounterKey demo_key)) (Num 5) (Some 60)"

definition legacy_object :: storage where
  "legacy_object = storage_put Map.empty ''legacy_count'' (Num 5) None"

text \<open>A world whose KV counter for \<open>demo_key\<close> has reached the limit 3 of \<open>demo_env\<close>.\<close>

definition exhausted_world :: world where
  "exhausted_world =
     \<lparr>w_kv = storage_put Map.empty (count_key (demo_buildCounterKey demo_key)) (Num 3) (Some 60),
      w_do = (\<lambda>name. Map.empty)\<rparr>"

text \<open>What the handler derives from the presentation of the examples.\<close>

definition demo_derived :: derived where
  "demo_derived =
     \<lparr>v_projectId = ''test_project'', v_limit = 3,
      v_originCanonical = ''https://example.com'', v_epochDays = ''20000'',
      v_policyId = ''comments'', v_window = ''20000'', v_y = [199],
      v_Zprime = ''24'', v_KID = ''kid-2025-11'', v_AADr = ''policy=comments'',
      v_c = ''99''\<rparr>"

text \<open>
  Two worlds whose KV store holds only a grace entry for that presentation, a success
  and a denial, and no counter: the state after midnight, in the new window.
\<close>

definition grace_success_world :: world where
  "grace_success_world =
     \<lparr>w_kv = storage_put Map.empty (grace_key ''test_project'' ''4'') (Doc (successResponse 2))
               (Some 60),
      w_do = (\<lambda>name. Map.empty)\<rparr>"

definition grace_denied_world :: world where
  "grace_denied_world =
     \<lparr>w_kv = storage_put Map.empty (grace_key ''test_project'' ''4'') (Doc failureResponse)
               (Some 60),
      w_do = (\<lambda>name. Map.empty)\<rparr>"

section \<open>Lemmas on the storage\<close>

lemma key_distinct [simp]:
  "count_key a \<noteq> ik_key p i" "ik_key p i \<noteq> count_key a"
  "grace_key p g \<noteq> ik_key q i" "ik_key q i \<noteq> grace_key p g"
  "grace_key p g \<noteq> count_key a" "count_key a \<noteq> grace_key p g"
  "''count'' \<noteq> ik_key p i" "ik_key p i \<noteq> ''count''"
  "''count'' \<noteq> grace_key p i" "grace_key p i \<noteq> ''count''"
  by (simp_all add: count_key_def ik_key_def grace_key_def)

lemma storage_get_put [simp]:
  "storage_get (storage_put s k v t) k' = (if k' = k then Some v else storage_get s k')"
  by (simp add: storage_get_def storage_put_def)

lemma storage_put_apply [simp]:
  "storage_put s k v t k' = (if k' = k then Some \<lparr>content = v, expirationTtl = t\<rparr> else s k')"
  by (simp add: storage_put_def)

lemma storage_get_None [simp]: "storage_get s k = None \<longleftrightarrow> s k = None"
  by (simp add: storage_get_def)

lemma storage_get_empty [simp]: "storage_get Map.empty k = None"
  by simp

lemmas store_eval =
  KVStore_spend_def KVStore_currentCount_def KVStore_guardGrace_def
  KVStore_cacheGraceResponse_def KVStore_cacheGraceResponse_get_def
  KVStore_cacheGraceResponse_put_def BrassCounterDO_handleSpend_def BrassCounterDO_count_def
  BrassCounterDO_handleGraceCheck_def BrassCounterDO_handleGraceCache_def
  DurableObjectStore_spend_def DurableObjectStore_guardGrace_def
  DurableObjectStore_cacheGraceResponse_def response_ok_def parseCount_def parseDecision_def
  failureResponse_def successResponse_def enableMigrationFallback_def
  ik_key_def grace_key_def count_key_def grace_object_def storage_get_def storage_put_def
  demo_key_def demo_buildCounterKey_def demo_buildLegacyCounterKey_def

lemma spend_without_record_kv:
  assumes "storage_get kv (ik_key (k_projectId key) IK) = None"
  shows
    "(let ck = count_key (bck key); ik = ik_key (k_projectId key) IK;
          migrated = (parseCount (storage_get kv ck) = 0
                      \<and> 0 < parseCount (storage_get kv (count_key (blk key))));
          C = (if migrated then parseCount (storage_get kv (count_key (blk key)))
               else parseCount (storage_get kv ck));
          res = fst (KVStore_spend bck blk key IK limit ttl kv);
          kv' = snd (KVStore_spend bck blk key IK limit ttl kv)
      in (limit \<le> C \<longrightarrow>
            res = failureResponse
            \<and> kv' ik = Some \<lparr>content = Doc failureResponse, expirationTtl = Some ttl\<rparr>
            \<and> (if migrated
               then kv' ck = Some \<lparr>content = Num C, expirationTtl = Some ttl\<rparr>
               else kv' ck = kv ck))
       \<and> (C < limit \<longrightarrow>
            res = successResponse (max 0 (limit - (C + 1)))
            \<and> kv' ck = Some \<lparr>content = Num (C + 1), expirationTtl = Some ttl\<rparr>
            \<and> kv' ik = Some \<lparr>content = Doc res, expirationTtl = Some ttl\<rparr>)
       \<and> (\<forall>k. k \<noteq> ik \<and> k \<noteq> ck \<longrightarrow> kv' k = kv k))"
  using assms
  by (auto simp: Let_def KVStore_spend_def KVStore_currentCount_def enableMigrationFallback_def
      simp del: storage_get_None)

lemma spend_without_record_do:
  assumes "storage_get st (ik_key pid IK) = None"
  shows
    "(let ik = ik_key pid IK;
          migrated = (parseCount (storage_get st ''count'') = 0
                      \<and> 0 < parseCount (storage_get st ''legacy_count''));
          C = (if migrated then parseCount (storage_get st ''legacy_count'')
               else parseCount (storage_get st ''count''));
          res = fst (BrassCounterDO_handleSpend pid IK limit ttl st);
          st' = snd (BrassCounterDO_handleSpend pid IK limit ttl st)
      in (limit \<le> C \<longrightarrow>
            res = (429, failureResponse)
            \<and> st' ik = Some \<lparr>content = Doc failureResponse, expirationTtl = Some ttl\<rparr>
            \<and> (if migrated
               then storage_get st' ''count'' = Some (Num C)
               else st' ''count'' = st ''count''))
       \<and> (C < limit \<longrightarrow>
            res = (200, successResponse (max 0 (limit - (C + 1))))
            \<and> st' ''count'' = Some \<lparr>content = Num (C + 1), expirationTtl = Some ttl\<rparr>
            \<and> st' ik = Some \<lparr>content = Doc (snd res), expirationTtl = Some ttl\<rparr>)
       \<and> (\<forall>k. k \<noteq> ik \<and> k \<noteq> ''count'' \<longrightarrow> st' k = st k))"
  using assms
  by (auto simp: Let_def BrassCounterDO_handleSpend_def BrassCounterDO_count_def
      enableMigrationFallback_def simp del: storage_get_None)

text \<open>
  The replay of a stored decision: both stores return it with \<open>idempotent = true\<close> and
  write nothing; the adapter of the Durable Object passes it on when it is a success.
\<close>

lemma idempotent_replay:
  assumes "storage_get kv (ik_key (k_projectId key) IK) = Some (Doc d)"
      and "storage_get (dos (bck key)) (ik_key (k_projectId key) IK) = Some (Doc d)"
  shows "KVStore_spend bck blk key IK limit ttl kv = (d\<lparr>idempotent := Some True\<rparr>, kv)"
    and "BrassCounterDO_handleSpend (k_projectId key) IK limit ttl (dos (bck key))
           = ((if ok d then 200 else 429, d\<lparr>idempotent := Some True\<rparr>), dos (bck key))"
    and "ok d \<Longrightarrow>
           DurableObjectStore_spend bck key IK limit ttl dos = (d\<lparr>idempotent := Some True\<rparr>, dos)"
    and "snd (DurableObjectStore_spend bck key IK limit ttl dos) = dos"
  using assms
  by (simp_all add: KVStore_spend_def BrassCounterDO_handleSpend_def DurableObjectStore_spend_def
      parseDecision_def response_ok_def Let_def)

section \<open>The spend keeps the grace entries\<close>

lemma KVStore_spend_grace:
  "snd (KVStore_spend bck blk key IK limit ttl kv) (grace_key p g) = kv (grace_key p g)"
  by (auto simp: KVStore_spend_def KVStore_currentCount_def Let_def
      split: option.splits prod.splits if_splits)

lemma handleSpend_grace:
  "snd (BrassCounterDO_handleSpend pid IK limit ttl st) (grace_key p g) = st (grace_key p g)"
  by (auto simp: BrassCounterDO_handleSpend_def BrassCounterDO_count_def Let_def
      split: option.splits prod.splits if_splits)

lemma DurableObjectStore_spend_grace:
  "snd (DurableObjectStore_spend bck key IK limit ttl dos) name (grace_key p g)
     = dos name (grace_key p g)"
proof -
  obtain st b st' where h:
    "BrassCounterDO_handleSpend (k_projectId key) IK limit ttl (dos (bck key)) = ((st, b), st')"
    by (metis surj_pair)
  with handleSpend_grace [of "k_projectId key" IK limit ttl "dos (bck key)" p g]
  have "st' (grace_key p g) = dos (bck key) (grace_key p g)" by simp
  with h show ?thesis
    by (simp add: DurableObjectStore_spend_def Let_def)
qed

lemma store_spend_guardGrace:
  "store_guardGrace b p g t (snd (store_spend pr b key IK limit ttl w))
     = store_guardGrace b p g t w"
proof (cases b)
  case KV
  obtain res kv' where sp:
    "KVStore_spend (buildCounterKey pr) (buildLegacyCounterKey pr) key IK limit ttl (w_kv w)
       = (res, kv')"
    by (metis surj_pair)
  with KVStore_spend_grace
      [of "buildCounterKey pr" "buildLegacyCounterKey pr" key IK limit ttl "w_kv w" p g]
  have "kv' (grace_key p g) = w_kv w (grace_key p g)" by simp
  with KV sp show ?thesis
    by (simp add: store_guardGrace_def store_spend_def KVStore_guardGrace_def storage_get_def)
next
  case DurableObjects
  obtain res dos' where sp:
    "DurableObjectStore_spend (buildCounterKey pr) key IK limit ttl (w_do w) = (res, dos')"
    by (metis surj_pair)
  with DurableObjectStore_spend_grace
      [of "buildCounterKey pr" key IK limit ttl "w_do w" "grace_object p g" p g]
  have "dos' (grace_object p g) (grace_key p g) = w_do w (grace_object p g) (grace_key p g)"
    by simp
  with DurableObjects sp show ?thesis
    by (simp add: store_guardGrace_def store_spend_def DurableObjectStore_guardGrace_def
        BrassCounterDO_handleGraceCheck_def storage_get_def)
qed

lemma cacheGraceResponse_hit:
  "store_guardGrace b p g t w = Some c \<Longrightarrow> store_cacheGraceResponse b p g t' r w = w"
  by (cases b)
    (auto simp: store_guardGrace_def store_cacheGraceResponse_def KVStore_guardGrace_def
      KVStore_cacheGraceResponse_def KVStore_cacheGraceResponse_get_def
      KVStore_cacheGraceResponse_put_def DurableObjectStore_guardGrace_def
      DurableObjectStore_cacheGraceResponse_def BrassCounterDO_handleGraceCheck_def
      BrassCounterDO_handleGraceCache_def storage_get_def split: option.splits)

lemma cacheGraceResponse_miss:
  "store_guardGrace b p g t w = None \<Longrightarrow>
     store_guardGrace b p g t (store_cacheGraceResponse b p g t' r w) = Some r"
  by (cases b)
    (auto simp: store_guardGrace_def store_cacheGraceResponse_def KVStore_guardGrace_def
      KVStore_cacheGraceResponse_def KVStore_cacheGraceResponse_get_def
      KVStore_cacheGraceResponse_put_def DurableObjectStore_guardGrace_def
      DurableObjectStore_cacheGraceResponse_def BrassCounterDO_handleGraceCheck_def
      BrassCounterDO_handleGraceCache_def parseDecision_def storage_get_def storage_put_def
      split: option.splits)

section \<open>The constant-time comparison\<close>

lemma byte_xor_zero: "x XOR z = 0 \<longleftrightarrow> x = z" for x z :: "8 word"
  by (auto simp: bit_eq_iff bit_xor_iff)

lemma ctAcc_zero: "ctAcc v a b = 0 \<Longrightarrow> v = 0"
  by (induction v a b rule: ctAcc.induct) (auto simp: or_eq_0_iff)

lemma ctAcc_eq: "length a = length b \<Longrightarrow> ctAcc 0 a b = 0 \<longleftrightarrow> a = b"
proof (induction a arbitrary: b)
  case Nil
  then show ?case by simp
next
  case (Cons x xs)
  then obtain z zs where b: "b = z # zs" by (cases b) auto
  show ?case
  proof (cases "x = z")
    case True
    with Cons b show ?thesis by simp
  next
    case False
    then have "x XOR z \<noteq> 0" by (simp add: byte_xor_zero)
    then have "ctAcc (0 OR (x XOR z)) xs zs \<noteq> 0"
      using ctAcc_zero [of "0 OR (x XOR z)" xs zs] by auto
    with False b show ?thesis by simp
  qed
qed

lemma ctEqual_eq: "ctEqual a b \<longleftrightarrow> a = b"
  using ctAcc_eq [of a b] by (auto simp: ctEqual_def)

section \<open>Lemmas on the control flow\<close>

lemma andThen_Return_iff:
  "andThen x f = Return r \<longleftrightarrow> x = Return r \<or> (\<exists>v. x = Next v \<and> f v = Return r)"
  by (cases x) auto

lemma attempt_simps [simp]:
  "attempt (Inl e) = Throw e" "attempt (Inr v) = Next v"
  by (simp_all add: attempt_def)

lemma attempt_iff [simp]:
  "attempt x \<noteq> Return r"
  "attempt x = Next v \<longleftrightarrow> x = Inr v"
  "attempt x = Throw e \<longleftrightarrow> x = Inl e"
  by (cases x; simp)+

lemma piI_check_no_Return: "piI_check pr Y Mpt Zpt cI rI \<noteq> Return r"
  by (simp add: piI_check_def andThen_Return_iff)

lemma piC_check_no_Return: "piC_check pr Ppt Mpt cC rC bindC \<noteq> Return r"
  by (simp add: piC_check_def andThen_Return_iff Let_def)

lemma issuer_checks_Return:
  "issuer_checks pr env d pl = Return r \<Longrightarrow>
     r = error_response 401 ''invalid_piI'' \<or> r = error_response 401 ''d_mismatch''"
  by (auto simp: issuer_checks_def andThen_Return_iff piI_check_no_Return split: if_splits)

lemma client_checks_Return:
  "client_checks pr env now d pl auth Ppt Mpt = Return r \<Longrightarrow>
     r = error_response 401 ''invalid_piC''"
  by (auto simp: client_checks_def andThen_Return_iff piC_check_no_Return Let_def
      split: if_splits)

lemma verify_Return:
  "verify pr env now req auth = Return r \<Longrightarrow>
     r = error_response 401 ''invalid_piI'' \<or> r = error_response 401 ''d_mismatch''
     \<or> r = error_response 401 ''invalid_piC''"
  by (auto simp: verify_def verify_payload_def andThen_Return_iff
      dest: issuer_checks_Return client_checks_Return)

lemma authenticate_Return:
  "authenticate pr env req kv = Return r \<Longrightarrow> http_status r = 401 \<and> (\<exists>k. http_body r = JError k)"
  by (auto simp: authenticate_def Let_def error_response_def split: if_splits)

lemma decodePoint_Inl:
  "decodePoint pr s = Inl k \<Longrightarrow>
     k = ''invalid_point_encoding'' \<or> k = ''invalid_point_infinity''
     \<or> (\<exists>p. pt_assertValidity pr p = Some k)"
  by (auto simp: decodePoint_def split: option.splits if_splits)

lemma reply_status: "http_status (reply win res) = 200 \<or> http_status (reply win res) = 429"
  by (simp add: reply_def)

lemma finish_status:
  "http_status (fst (finish pr env now v w)) = 200 \<or> http_status (fst (finish pr env now v w)) = 429"
  using reply_status
  by (auto simp: finish_def grace_guard_def spend_and_reply_def Let_def
      split: sum.splits option.splits if_splits prod.splits)






text \<open>The handler on a POST request, step by step.\<close>

lemma fetch_POST:
  "r_method req = ''POST'' \<Longrightarrow>
   fetch pr env now req w =
     (case pre_spend pr env now req (w_kv w) of
        Return resp \<Rightarrow> (resp, w)
      | Throw msg \<Rightarrow> (error_response 500 (if msg = [] then ''server_error'' else msg), w)
      | Next v \<Rightarrow> finish pr env now v w)"
  by (simp add: fetch_def)

lemma pre_spend_parsed:
  "authenticate pr env req kv = Next auth \<Longrightarrow> JSON_parse pr (r_bodyText req) = Inr pl \<Longrightarrow>
   pre_spend pr env now req kv =
     andThen (issuer_checks pr env (compute_d pr req pl) pl) (\<lambda>pts.
       client_checks pr env now (compute_d pr req pl) pl auth (fst pts) (snd pts))"
  by (simp add: pre_spend_def verify_def verify_payload_def)

lemma issuer_checks_decode_failure:
  assumes "i < 5"
      and "\<forall>j<i. \<exists>pt. decodePoint pr (decoded_fields env pl ! j) = Inr pt"
      and "decodePoint pr (decoded_fields env pl ! i) = Inl k"
  shows "issuer_checks pr env d pl = Throw k"
proof -
  from assms(1) consider "i = 0" | "i = 1" | "i = 2" | "i = 3" | "i = 4" by linarith
  then show ?thesis
  proof cases
    case 1
    with assms(3) show ?thesis by (simp add: issuer_checks_def decoded_fields_def)
  next
    case 2
    with assms(2) obtain p0 where "decodePoint pr (decoded_fields env pl ! 0) = Inr p0" by auto
    with 2 assms(3) show ?thesis by (simp add: issuer_checks_def decoded_fields_def)
  next
    case 3
    with assms(2) obtain p0 p1 where "decodePoint pr (decoded_fields env pl ! 0) = Inr p0"
      "decodePoint pr (decoded_fields env pl ! 1) = Inr p1"
      by (metis zero_less_numeral one_less_numeral_iff semiring_norm(76))
    with 3 assms(3) show ?thesis by (simp add: issuer_checks_def decoded_fields_def)
  next
    case 4
    with assms(2) have "\<exists>pt. decodePoint pr (decoded_fields env pl ! 0) = Inr pt"
      "\<exists>pt. decodePoint pr (decoded_fields env pl ! 1) = Inr pt"
      "\<exists>pt. decodePoint pr (decoded_fields env pl ! 2) = Inr pt"
      by simp_all
    then obtain p0 p1 p2 where "decodePoint pr (decoded_fields env pl ! 0) = Inr p0"
      "decodePoint pr (decoded_fields env pl ! 1) = Inr p1"
      "decodePoint pr (decoded_fields env pl ! 2) = Inr p2"
      by blast
    with 4 assms(3) show ?thesis by (simp add: issuer_checks_def decoded_fields_def)
  next
    case 5
    with assms(2) have "\<exists>pt. decodePoint pr (decoded_fields env pl ! 0) = Inr pt"
      "\<exists>pt. decodePoint pr (decoded_fields env pl ! 1) = Inr pt"
      "\<exists>pt. decodePoint pr (decoded_fields env pl ! 2) = Inr pt"
      "\<exists>pt. decodePoint pr (decoded_fields env pl ! 3) = Inr pt"
      by simp_all
    then obtain p0 p1 p2 p3 where "decodePoint pr (decoded_fields env pl ! 0) = Inr p0"
      "decodePoint pr (decoded_fields env pl ! 1) = Inr p1"
      "decodePoint pr (decoded_fields env pl ! 2) = Inr p2"
      "decodePoint pr (decoded_fields env pl ! 3) = Inr p3"
      by blast
    with 5 assms(3) show ?thesis by (simp add: issuer_checks_def decoded_fields_def)
  qed
qed

lemma issuer_checks_decoded:
  assumes "decodePoint pr (p_P pl) = Inr Ppt" "decodePoint pr (p_M pl) = Inr Mpt"
    "decodePoint pr (p_Z pl) = Inr Zpt" "decodePoint pr (p_Zprime pl) = Inr Zppt"
    "decodePoint pr (BRASS_ISSUER_PUBKEY env) = Inr Y"
    "bytesToBig (b64urlToBytes pr (pi_c (p_piI pl))) = Inr cI"
    "bytesToBig (b64urlToBytes pr (pi_r (p_piI pl))) = Inr rI"
    "piI_check pr Y Mpt Zpt cI rI = Next okI"
  shows "issuer_checks pr env d pl =
           (if \<not> okI then Return (error_response 401 ''invalid_piI'')
            else if truthy (p_d_client pl)
                    \<and> \<not> ctEqual d (b64urlToBytes pr (orElse (p_d_client pl) []))
            then Return (error_response 401 ''d_mismatch'')
            else Next (Ppt, Mpt))"
  using assms by (simp add: issuer_checks_def)

lemma client_checks_parsed:
  assumes "canonicalOrigin pr (p_origin pl) = Inr oc"
    "bytesToBig (b64urlToBytes pr (pi_c (p_piC pl))) = Inr cC"
    "bytesToBig (b64urlToBytes pr (pi_r (p_piC pl))) = Inr rC"
  shows "client_checks pr env now d pl auth Ppt Mpt =
     (let epochDays = currentEpochDays pr now;
          policyId = parsePolicyId pr (p_AADr pl);
          win = windowId pr epochDays;
          eta = deriveEta pr (BRASS_ISSUER_PUBKEY env) oc epochDays policyId win;
          y = deriveNullifierY pr (p_Zprime pl) (p_KID pl) (p_AADr pl) eta
      in andThen (piC_check pr Ppt Mpt cC rC (bindC_of pr pl y d win policyId eta)) (\<lambda>okC.
           if \<not> okC then Return (error_response 401 ''invalid_piC'')
           else Next \<lparr>v_projectId = fst auth, v_limit = snd auth,
                       v_originCanonical = oc, v_epochDays = epochDays,
                       v_policyId = policyId, v_window = win, v_y = y,
                       v_Zprime = p_Zprime pl, v_KID = p_KID pl, v_AADr = p_AADr pl,
                       v_c = p_c pl\<rparr>))"
  using assms by (simp add: client_checks_def Let_def)

section \<open>The challenge of the handler and of the specification\<close>

lemma bytesToBig_nonneg: "bytesToBig b = Inr v \<Longrightarrow> 0 \<le> v"
proof -
  have "0 \<le> a \<Longrightarrow> 0 \<le> foldl (\<lambda>acc x. acc * 256 + uint x) a b" for a :: int
    by (induction b arbitrary: a) simp_all
  from this [of 0] show "bytesToBig b = Inr v \<Longrightarrow> 0 \<le> v"
    by (auto simp: bytesToBig_def split: if_splits)
qed

lemma modN_mod: "0 < n \<Longrightarrow> 0 \<le> v \<Longrightarrow> modN n v = v mod n"
  by (cases "v = 0") (simp_all add: modN_def js_rem_def Let_def not_less)

lemma dleqVerify_spec_FS:
  assumes "0 < CURVE_n pr"
  shows "dleqVerify pr label g1 h1 g2 h2 A1 A2 c r bind =
           (case spec_FS pr label g1 h1 g2 h2 A1 A2 bind of
              Inl e \<Rightarrow> Inl e
            | Inr c' \<Rightarrow> Inr (c' = c))"
  using assms
  by (auto simp: dleqVerify_def spec_FS_def Let_def modN_mod dest: bytesToBig_nonneg
      split: sum.splits)

lemma spec_FS_range: "0 < CURVE_n pr \<Longrightarrow> spec_FS pr label g1 h1 g2 h2 A1 A2 bind = Inr c'
    \<Longrightarrow> c' mod CURVE_n pr = c'"
  by (auto simp: spec_FS_def split: sum.splits)

text \<open>
  The client proof in terms of the challenge \<open>FS\<close>: the handler hashes the generator as
  the second commitment; the reference equation does the same when \<open>G^r \<cdot> G^c = G\<close>.
\<close>

lemma piC_check_spec_FS:
  assumes "0 < CURVE_n pr"
  shows "piC_check pr Ppt Mpt cC rC bindC =
           andThen (attempt (pt_multiply pr Ppt rC)) (\<lambda>Pr.
           andThen (attempt (pt_multiply pr Mpt cC)) (\<lambda>Mc.
           andThen (attempt (spec_FS pr CONFIG_LABEL_DLEQ Ppt Mpt (pt_BASE pr) (pt_BASE pr)
                               (pt_add pr Pr Mc) (pt_BASE pr) bindC))
             (\<lambda>c'. Next (c' = cC))))"
proof -
  have eq: "attempt (dleqVerify pr CONFIG_LABEL_DLEQ Ppt Mpt (pt_BASE pr) (pt_BASE pr) A (pt_BASE pr) cC rC bindC)
      = andThen (attempt (spec_FS pr CONFIG_LABEL_DLEQ Ppt Mpt (pt_BASE pr) (pt_BASE pr)
                               A (pt_BASE pr) bindC)) (\<lambda>c'. Next (c' = cC))" for A
    by (simp add: dleqVerify_spec_FS [OF assms] split: sum.splits)
  show ?thesis
    by (simp add: piC_check_def Let_def eq)
qed

lemma spec_dleq_accept_generator:
  assumes "0 < CURVE_n pr"
      and "pt_multiply pr Ppt rC = Inr Pr" "pt_multiply pr Mpt cC = Inr Mc"
      and "spec_FS pr CONFIG_LABEL_DLEQ Ppt Mpt (pt_BASE pr) (pt_BASE pr) (pt_add pr Pr Mc)
             (pt_BASE pr) bindC = Inr c'"
      and "pt_multiply pr (pt_BASE pr) rC = Inr Gr" "pt_multiply pr (pt_BASE pr) cC = Inr Gc"
      and "pt_add pr Gr Gc = pt_BASE pr" "0 \<le> cC" "cC < CURVE_n pr"
  shows "spec_dleq_accept pr CONFIG_LABEL_DLEQ Ppt Mpt (pt_BASE pr) (pt_BASE pr) cC rC bindC
           = Next (c' = cC)"
proof -
  have "cC mod CURVE_n pr = cC" using assms(8,9) by simp
  moreover have "c' mod CURVE_n pr = c'" using spec_FS_range [OF assms(1,4)] .
  ultimately show ?thesis
    using assms(2,3,4,5,6,7) by (simp add: spec_dleq_accept_def)
qed

section \<open>Running the small instance\<close>

lemma demo_fields:
  "JSON_parse demo = demo_JSON_parse"
  "toUpperCase demo = (\<lambda>s. s)"
  "sha256 demo = demo_sum"
  "H3 demo = demo_H3"
  "b64urlToBytes demo = demo_b64urlToBytes"
  "bytesToB64url demo = demo_bytesToB64url"
  "secretToBytes demo = demo_b64urlToBytes"
  "pt_fromHex demo = demo_fromHex"
  "pt_assertValidity demo = (\<lambda>p. None)"
  "pt_ZERO demo = 0"
  "pt_BASE demo = 1"
  "pt_equals demo = (\<lambda>p q. p = q)"
  "pt_multiply demo = demo_multiply"
  "pt_add demo = (\<lambda>p q. (p + q) mod 11)"
  "pt_toRawBytes demo = (\<lambda>p. [2, of_nat p])"
  "CURVE_n demo = 11"
  "canonicalOrigin demo =
     (\<lambda>s. if take 8 s = ''https://'' then Inr s else Inl ''origin_must_be_https'')"
  "currentEpochDays demo = (\<lambda>now. if now < 1728000000000 then ''19999'' else ''20000'')"
  "windowId demo = (\<lambda>e. e)"
  "parsePolicyId demo = (\<lambda>a. if take 7 a = ''policy='' then drop 7 a else ''default'')"
  "deriveEta demo = (\<lambda>pk org e pol win.
     demo_H3 [Str ''BRASS_SALT_v1'', Str pk, Str org, Str e, Str pol, Str win])"
  "deriveNullifierY demo = (\<lambda>z kid aadr eta.
     demo_H3 [Str ''BRASS_NULLIFIER_v1'', Str z, Str kid, Str aadr, Raw eta])"
  "deriveTlsBinding demo = (\<lambda>ex. case ex of
       None \<Rightarrow> demo_H3 [Str ''no_exporter'']
     | Some e \<Rightarrow> demo_H3 [Str ''tls_exporter'', Raw e])"
  "deriveIdempotencyKey demo = (\<lambda>sec yb c.
     demo_bytesToB64url (demo_H3 [Raw sec, Raw yb, Str c]))"
  "deriveGraceNullifier demo = (\<lambda>z kid pk org pol suite ver aadr.
     demo_H3 [Str ''BRASS_GRACE_v1'', Str z, Str kid, Str pk, Str org, Str pol, Str suite,
              Str ver, Str aadr])"
  "isInGracePeriod demo = demo_isInGracePeriod"
  "secondsUntilWindowEnd demo = (\<lambda>now e. max 1 ((86400000 - now mod 86400000) div 1000))"
  "buildCounterKey demo = demo_buildCounterKey"
  "buildLegacyCounterKey demo = demo_buildLegacyCounterKey"
  by (simp_all add: demo_def)

lemmas hash_eval = demo_fields demo_H3_def demo_sum_def utf8ToBytes_def

lemma demo_authenticate:
  "authenticate demo demo_env (demo_request b) kv = Next (''test_project'', 3)"
  by (simp add: authenticate_def demo_fields demo_env_def demo_request_def orElse_def)

lemma demo_compute_d:
  "compute_d demo (demo_request ''epoch=20000;a'') demo_payload = [103]"
  "compute_d demo (demo_request ''epoch=20001;a'') (demo_payload\<lparr>p_epoch := 20001\<rparr>) = [104]"
  "compute_d demo (demo_request ''epoch=20000;h'') demo_payload_overrides = [148]"
  by (simp_all add: compute_d_def demo_request_def demo_payload_def demo_payload_overrides_def
      truthy_def orElse_def hash_eval CONFIG_LABEL_HTTP_CTX_def demo_b64urlToBytes_def)

lemma demo_decodePoint:
  "decodePoint demo ''25'' = Inr 5" "decodePoint demo ''29'' = Inr 9"
  "decodePoint demo ''24'' = Inr 4" "decodePoint demo ''23'' = Inr 3"
  "decodePoint demo [] = Inl ''invalid_point_encoding''"
  by (simp_all add: decodePoint_def demo_fields demo_fromHex_def demo_b64urlToBytes_def)

lemma demo_scalars:
  "bytesToBig (demo_b64urlToBytes ''3'') = Inr 3" "bytesToBig (demo_b64urlToBytes ''4'') = Inr 4"
  "bytesToBig (demo_b64urlToBytes ''5'') = Inr 5"
  by (simp_all add: bytesToBig_def demo_b64urlToBytes_def)

lemma demo_piI: "piI_check demo 3 9 5 3 4 = Next True"
  by (simp add: piI_check_def dleqVerify_def demo_multiply_def hash_eval
      CONFIG_LABEL_DLEQ_def bytesToBig_def modN_def js_rem_def)

lemma demo_issuer_checks:
  assumes "p_P pl = ''25''" "p_M pl = ''29''" "p_Z pl = ''25''" "p_Zprime pl = ''24''"
    "p_piI pl = \<lparr>pi_c = ''3'', pi_r = ''4''\<rparr>" "p_d_client pl = None"
  shows "issuer_checks demo demo_env d pl = Next (5, 9)"
  using assms
  by (simp add: issuer_checks_def demo_fields demo_decodePoint demo_scalars demo_piI
      demo_env_def truthy_def)

lemma demo_piC:
  "piC_check demo 5 9 5 3 [230] = Next True"
  "piC_check demo 5 9 5 3 [231] = Next False"
  "piC_check demo 5 9 5 5 [19] = Next True"
  by (simp_all add: piC_check_def dleqVerify_def demo_multiply_def hash_eval
      CONFIG_LABEL_DLEQ_def bytesToBig_def modN_def js_rem_def)

lemma demo_eta:
  "demo_H3 [Str ''BRASS_SALT_v1'', Str ''23'', Str ''https://example.com'', Str ''20000'',
            Str ''comments'', Str ''20000''] = [231]"
  by (simp add: hash_eval)

lemma demo_y:
  "demo_H3 [Str ''BRASS_NULLIFIER_v1'', Str ''24'', Str ''kid-2025-11'', Str ''policy=comments'',
            Raw [231]] = [199]"
  by (simp add: hash_eval)

lemma demo_bindC:
  assumes "p_c pl = ''99''" "p_AADr pl = ''policy=comments''" "p_KID pl = ''kid-2025-11''"
    "p_tls_exporter_b64 pl = None"
  shows "bindC_of demo pl [199] [103] ''20000'' ''comments'' [231] = [230]"
    "bindC_of demo pl [199] [104] ''20000'' ''comments'' [231] = [231]"
    "bindC_of demo pl [199] [148] ''20000'' ''comments'' [231] = [19]"
  using assms
  by (simp_all add: bindC_of_def truthy_def hash_eval demo_b64urlToBytes_def
      CONFIG_CIPHER_SUITE_def CONFIG_PROTOCOL_VERSION_def)

lemma demo_bindC_payload:
  "bindC_of demo demo_payload [199] [103] ''20000'' ''comments'' [231] = [230]"
  by (rule demo_bindC) (simp_all add: demo_payload_def)

lemma demo_client_checks:
  assumes "p_origin pl = ''https://example.com''" "p_AADr pl = ''policy=comments''"
    "p_KID pl = ''kid-2025-11''" "p_Zprime pl = ''24''" "p_c pl = ''99''"
    "p_tls_exporter_b64 pl = None" "pi_r (p_piC pl) = r"
    "pi_c (p_piC pl) = ''5''"
  shows
    "r = ''3'' \<Longrightarrow> client_checks demo demo_env demo_now [103] pl (''test_project'', 3) 5 9
       = Next demo_derived"
    "r = ''3'' \<Longrightarrow> client_checks demo demo_env demo_now [104] pl (''test_project'', 3) 5 9
       = Return (error_response 401 ''invalid_piC'')"
    "r = ''5'' \<Longrightarrow> client_checks demo demo_env demo_now [148] pl (''test_project'', 3) 5 9
       = Next demo_derived"
  using assms demo_bindC [of pl]
  by (simp_all add: client_checks_def Let_def demo_fields demo_env_def demo_now_def demo_eta
      demo_y demo_scalars demo_piC demo_derived_def)

lemma demo_pre_spend:
  "pre_spend demo demo_env demo_now (demo_request ''epoch=20000;a'') kv = Next demo_derived"
  "pre_spend demo demo_env demo_now (demo_request ''epoch=20001;a'') kv
     = Return (error_response 401 ''invalid_piC'')"
  "pre_spend demo demo_env demo_now (demo_request ''epoch=20000;h'') kv = Next demo_derived"
  "pre_spend demo demo_env demo_now (demo_request ''epoch=20000;P='') kv
     = Throw ''invalid_point_encoding''"
  "pre_spend demo demo_env demo_now (demo_request ''epoch=20000;O'') kv
     = Throw ''origin_must_be_https''"
proof -
  have body: "r_bodyText (demo_request b) = b" for b
    by (simp add: demo_request_def)
  show "pre_spend demo demo_env demo_now (demo_request ''epoch=20000;a'') kv = Next demo_derived"
    by (simp add: pre_spend_def demo_authenticate verify_def verify_payload_def body demo_fields
        demo_JSON_parse_def demo_compute_d
        demo_issuer_checks [of demo_payload] demo_client_checks(1) [of demo_payload]
        demo_payload_def [symmetric])
      (simp add: demo_payload_def demo_issuer_checks demo_client_checks(1))
  show "pre_spend demo demo_env demo_now (demo_request ''epoch=20001;a'') kv
     = Return (error_response 401 ''invalid_piC'')"
    by (simp add: pre_spend_def demo_authenticate verify_def verify_payload_def body demo_fields
        demo_JSON_parse_def demo_compute_d)
      (simp add: demo_payload_def demo_issuer_checks demo_client_checks(2))
  show "pre_spend demo demo_env demo_now (demo_request ''epoch=20000;h'') kv = Next demo_derived"
    by (simp add: pre_spend_def demo_authenticate verify_def verify_payload_def body demo_fields
        demo_JSON_parse_def demo_compute_d)
      (simp add: demo_payload_def demo_payload_overrides_def demo_issuer_checks
        demo_client_checks(3))
  show "pre_spend demo demo_env demo_now (demo_request ''epoch=20000;P='') kv
     = Throw ''invalid_point_encoding''"
    by (simp add: pre_spend_def demo_authenticate verify_def verify_payload_def body demo_fields
        demo_JSON_parse_def issuer_checks_def demo_decodePoint)
  show "pre_spend demo demo_env demo_now (demo_request ''epoch=20000;O'') kv
     = Throw ''origin_must_be_https''"
    by (simp add: pre_spend_def demo_authenticate verify_def verify_payload_def body demo_fields
        demo_JSON_parse_def)
      (simp add: demo_payload_def demo_issuer_checks client_checks_def demo_fields)
qed

lemma demo_spend_params:
  "choose_store demo_env = KV"
  "boundaryGraceSeconds demo_env = 60"
  "isInGracePeriod demo demo_now 60"
  "graceKey_of demo demo_env demo_derived = ''4''"
  "IK_of demo demo_env demo_derived = ''1''"
  "counter_key_of demo demo_env demo_derived = demo_key"
  "secondsUntilWindowEnd demo demo_now (v_epochDays demo_derived) = 86390"
  "v_projectId demo_derived = ''test_project''"
  "v_limit demo_derived = 3"
  "v_window demo_derived = ''20000''"
  by (simp_all add: choose_store_def boundaryGraceSeconds_def demo_env_def demo_now_def
      demo_isInGracePeriod_def graceKey_of_def IK_of_def counter_key_of_def demo_derived_def
      demo_key_def orElse_def hash_eval demo_bytesToB64url_def demo_b64urlToBytes_def
      CONFIG_CIPHER_SUITE_def CONFIG_PROTOCOL_VERSION_def)

lemma demo_request_POST: "r_method (demo_request b) = ''POST''"
  by (simp add: demo_request_def)

lemma demo_guard:
  "store_guardGrace KV ''test_project'' ''4'' 60 empty_world = None"
  "store_guardGrace KV ''test_project'' ''4'' 60 exhausted_world = None"
  "store_guardGrace KV ''test_project'' ''4'' 60 grace_success_world = Some (successResponse 2)"
  "store_guardGrace KV ''test_project'' ''4'' 60 grace_denied_world = Some failureResponse"
  by (simp_all add: store_guardGrace_def KVStore_guardGrace_def empty_world_def
      exhausted_world_def grace_success_world_def grace_denied_world_def parseDecision_def)

lemma demo_spend_result:
  "fst (store_spend demo KV demo_key ''1'' 3 86390 empty_world) = successResponse 2"
  "fst (store_spend demo KV demo_key ''1'' 3 86390 exhausted_world) = failureResponse"
  "fst (store_spend demo KV demo_key ''1'' 3 86390 grace_denied_world) = successResponse 2"
  by (simp_all add: store_spend_def KVStore_spend_def KVStore_currentCount_def empty_world_def
      exhausted_world_def grace_denied_world_def parseCount_def enableMigrationFallback_def
      demo_fields Let_def)

lemma demo_replies:
  "reply ''20000'' (successResponse 2)
     = \<lparr>http_status = 200, http_body = JSuccess (Some 2) False ''20000''\<rparr>"
  "reply ''20000'' failureResponse
     = \<lparr>http_status = 429, http_body = JDenied (Some ''limit_exceeded'') 0 ''20000''\<rparr>"
  by (simp_all add: reply_def successResponse_def failureResponse_def)

lemma demo_fetch_fst:
  "pre_spend demo demo_env demo_now (demo_request b) (w_kv w) = Next demo_derived \<Longrightarrow>
   store_guardGrace KV ''test_project'' ''4'' 60 w = None \<Longrightarrow>
   fst (fetch demo demo_env demo_now (demo_request b) w)
     = reply ''20000'' (fst (store_spend demo KV demo_key ''1'' 3 86390 w))"
  by (cases "store_spend demo KV demo_key ''1'' 3 86390 w")
    (simp add: fetch_def demo_request_POST finish_def grace_guard_def spend_and_reply_def
      demo_spend_params Let_def)

lemma demo_fetch_snd:
  assumes "pre_spend demo demo_env demo_now (demo_request b) (w_kv w) = Next demo_derived"
      and "store_guardGrace KV ''test_project'' ''4'' 60 w = None"
  shows "store_guardGrace KV ''test_project'' ''4'' 60
           (snd (fetch demo demo_env demo_now (demo_request b) w))
         = Some (fst (store_spend demo KV demo_key ''1'' 3 86390 w))"
proof -
  obtain res w1 where sp: "store_spend demo KV demo_key ''1'' 3 86390 w = (res, w1)"
    by (metis surj_pair)
  have "store_guardGrace KV ''test_project'' ''4'' 60 w1 = None"
    using store_spend_guardGrace [of KV "''test_project''" "''4''" 60 demo demo_key "''1''" 3
        86390 w] sp assms(2)
    by simp
  then have "store_guardGrace KV ''test_project'' ''4'' 60
      (store_cacheGraceResponse KV ''test_project'' ''4'' 60 res w1) = Some res"
    by (rule cacheGraceResponse_miss)
  with sp assms show ?thesis
    by (simp add: fetch_def demo_request_POST finish_def grace_guard_def spend_and_reply_def
        demo_spend_params Let_def)
qed

lemma demo_fetch_failures:
  "fetch demo demo_env demo_now (demo_request ''epoch=20001;a'') w
     = (\<lparr>http_status = 401, http_body = JError ''invalid_piC''\<rparr>, w)"
  "fetch demo demo_env demo_now (demo_request ''epoch=20000;P='') w
     = (\<lparr>http_status = 500, http_body = JError ''invalid_point_encoding''\<rparr>, w)"
  "fetch demo demo_env demo_now (demo_request ''epoch=20000;O'') w
     = (\<lparr>http_status = 500, http_body = JError ''origin_must_be_https''\<rparr>, w)"
  by (simp_all add: fetch_def demo_request_POST demo_pre_spend error_response_def)

lemma demo_fetch_success:
  "fst (fetch demo demo_env demo_now (demo_request ''epoch=20000;a'') empty_world)
     = \<lparr>http_status = 200, http_body = JSuccess (Some 2) False ''20000''\<rparr>"
  by (simp add: demo_fetch_fst demo_pre_spend demo_guard demo_spend_result demo_replies)

lemma demo_JSON_parse_bodies:
  "JSON_parse demo ''epoch=20000;a'' = Inr demo_payload"
  "JSON_parse demo ''epoch=20001;a'' = Inr (demo_payload\<lparr>p_epoch := 20001\<rparr>)"
  "JSON_parse demo ''epoch=20000;h'' = Inr demo_payload_overrides"
  "JSON_parse demo ''epoch=20001;h'' = Inr (demo_payload_overrides\<lparr>p_epoch := 20001\<rparr>)"
  by (simp_all add: demo_fields demo_JSON_parse_def)

lemma demo_spec_dleq:
  "spec_dleq_accept demo CONFIG_LABEL_DLEQ 5 9 (pt_BASE demo) (pt_BASE demo) 5 3 [230] = Next False"
  "spec_dleq_accept demo CONFIG_LABEL_DLEQ 5 9 (pt_BASE demo) (pt_BASE demo) 8 4 [0] = Next True"
  by (simp_all add: spec_dleq_accept_def spec_FS_def demo_multiply_def hash_eval
      CONFIG_LABEL_DLEQ_def bytesToBig_def)

lemma demo_compute_d_more:
  "compute_d demo (demo_request ''epoch=20000;b'')
     (demo_payload\<lparr>p_piC := \<lparr>pi_c = ''9'', pi_r = ''3''\<rparr>\<rparr>) = [104]"
  "compute_d demo (demo_request ''epoch=20000;D'') (demo_payload\<lparr>p_d_client := Some ''9''\<rparr>)
     = [74]"
  by (simp_all add: compute_d_def demo_request_def demo_payload_def
      truthy_def orElse_def hash_eval CONFIG_LABEL_HTTP_CTX_def demo_b64urlToBytes_def)

lemma demo_decodePoint_infinity:
  "pt_fromHex demo (b64urlToBytes demo ''20'') = Some 0"
  "pt_fromHex demo (b64urlToBytes demo []) = None"
  "pt_assertValidity demo 0 = None"
  "pt_equals demo 0 (pt_ZERO demo)"
  "decodePoint demo ''20'' = Inl ''invalid_point_infinity''"
  by (simp_all add: decodePoint_def demo_fields demo_fromHex_def demo_b64urlToBytes_def)

lemma demo_scalar_9: "bytesToBig (demo_b64urlToBytes ''9'') = Inr 9"
  by (simp add: bytesToBig_def demo_b64urlToBytes_def)

lemma demo_piI_wrong: "piI_check demo 3 9 5 4 4 = Next False"
  by (simp add: piI_check_def dleqVerify_def demo_multiply_def hash_eval
      CONFIG_LABEL_DLEQ_def bytesToBig_def modN_def js_rem_def)

lemma demo_spec_FS:
  "spec_FS demo CONFIG_LABEL_DLEQ 5 9 (pt_BASE demo) (pt_BASE demo) (pt_add demo 4 4)
     (pt_BASE demo) [231] = Inr 9"
  "spec_FS demo CONFIG_LABEL_DLEQ 5 9 (pt_BASE demo) (pt_BASE demo) (pt_add demo 4 1)
     (pt_BASE demo) [231] = Inr 6"
  by (simp_all add: spec_FS_def hash_eval CONFIG_LABEL_DLEQ_def bytesToBig_def)

lemma demo_products:
  "pt_multiply demo 5 3 = Inr 4" "pt_multiply demo 9 9 = Inr 4" "pt_multiply demo 9 5 = Inr 1"
  "pt_multiply demo (pt_BASE demo) 3 = Inr 3" "pt_multiply demo (pt_BASE demo) 9 = Inr 9"
  "pt_add demo 3 9 = pt_BASE demo"
  by (simp_all add: demo_fields demo_multiply_def)

lemma demo_spec_dleq_b:
  "spec_dleq_accept demo CONFIG_LABEL_DLEQ 5 9 (pt_BASE demo) (pt_BASE demo) 9 3 [231] = Next True"
  by (simp add: spec_dleq_accept_def spec_FS_def demo_multiply_def hash_eval
      CONFIG_LABEL_DLEQ_def bytesToBig_def)

lemma demo_context:
  "currentEpochDays demo demo_now = ''20000''"
  "parsePolicyId demo ''policy=comments'' = ''comments''"
  "windowId demo ''20000'' = ''20000''"
  "deriveEta demo (BRASS_ISSUER_PUBKEY demo_env) ''https://example.com'' ''20000'' ''comments''
     ''20000'' = [231]"
  "deriveNullifierY demo ''24'' ''kid-2025-11'' ''policy=comments'' [231] = [199]"
  "canonicalOrigin demo ''https://example.com'' = Inr ''https://example.com''"
  "canonicalOrigin demo ''http://example.com'' = Inl ''origin_must_be_https''"
  by (simp_all add: demo_fields demo_now_def demo_env_def demo_eta demo_y)

lemma demo_finish_fst:
  "store_guardGrace KV ''test_project'' ''4'' 60 w = None \<Longrightarrow>
   fst (finish demo demo_env demo_now demo_derived w)
     = reply ''20000'' (fst (store_spend demo KV demo_key ''1'' 3 86390 w))"
  by (cases "store_spend demo KV demo_key ''1'' 3 86390 w")
    (simp add: finish_def grace_guard_def spend_and_reply_def demo_spend_params Let_def)

lemma demo_ctEqual: "\<not> ctEqual [74] [9]"
  by (simp add: ctEqual_eq)

section \<open>Claims\<close>

text \<open>
  C1 (as the code has it). Take a POST request that is authenticated, parses and passes
  the issuer checks with the points \<open>P\<close> and \<open>M\<close>, whose origin canonicalizes, whose
  scalars \<open>cC\<close> and \<open>rC\<close> parse and whose products \<open>P^rC\<close> and \<open>M^cC\<close> exist. Let
  \<open>bindC\<close> be the binding the handler derives (from the nullifier \<open>y\<close>, the nonce, the
  request binding \<open>d\<close>, the window, the policy and the salt \<open>eta\<close>, all derived on the
  server) and \<open>c' = FS(P, M, G, G, A1', G, bindC, label) mod n\<close> with
  \<open>A1' = P^rC \<cdot> M^cC\<close>: the second commitment that is hashed is the generator \<open>G\<close>
  itself. The handler goes on to the spend iff \<open>c' = cC\<close> (\<open>cC\<close> as it was sent, not
  reduced) and answers 401 \<open>invalid_piC\<close>, leaving the store as it is, otherwise. This
  decision is that of the reference equation of the specification whenever
  \<open>G^rC \<cdot> G^cC = G\<close> and \<open>0 \<le> cC < n\<close>.
\<close>

theorem invalid_piC_decision:
  assumes "0 < CURVE_n pr"
      and "r_method req = ''POST''"
      and "authenticate pr env req (w_kv w) = Next auth"
      and "JSON_parse pr (r_bodyText req) = Inr pl"
      and "d = compute_d pr req pl"
      and "issuer_checks pr env d pl = Next (Ppt, Mpt)"
      and "canonicalOrigin pr (p_origin pl) = Inr originCanonical"
      and "epochDays = currentEpochDays pr now"
      and "policyId = parsePolicyId pr (p_AADr pl)"
      and "win = windowId pr epochDays"
      and "eta = deriveEta pr (BRASS_ISSUER_PUBKEY env) originCanonical epochDays policyId win"
      and "y = deriveNullifierY pr (p_Zprime pl) (p_KID pl) (p_AADr pl) eta"
      and "bindC = bindC_of pr pl y d win policyId eta"
      and "bytesToBig (b64urlToBytes pr (pi_c (p_piC pl))) = Inr cC"
      and "bytesToBig (b64urlToBytes pr (pi_r (p_piC pl))) = Inr rC"
      and "pt_multiply pr Ppt rC = Inr Pr"
      and "pt_multiply pr Mpt cC = Inr Mc"
      and "spec_FS pr CONFIG_LABEL_DLEQ Ppt Mpt (pt_BASE pr) (pt_BASE pr) (pt_add pr Pr Mc)
             (pt_BASE pr) bindC = Inr c'"
  shows "fetch pr env now req w =
           (if c' = cC
            then finish pr env now
                   \<lparr>v_projectId = fst auth, v_limit = snd auth,
                    v_originCanonical = originCanonical, v_epochDays = epochDays,
                    v_policyId = policyId, v_window = win, v_y = y,
                    v_Zprime = p_Zprime pl, v_KID = p_KID pl, v_AADr = p_AADr pl,
                    v_c = p_c pl\<rparr> w
            else (error_response 401 ''invalid_piC'', w))
       \<and> ((fst (fetch pr env now req w) = error_response 401 ''invalid_piC'') = (c' \<noteq> cC))
       \<and> (pt_multiply pr (pt_BASE pr) rC = Inr Gr \<and> pt_multiply pr (pt_BASE pr) cC = Inr Gc
           \<and> pt_add pr Gr Gc = pt_BASE pr \<and> 0 \<le> cC \<and> cC < CURVE_n pr
          \<longrightarrow> spec_dleq_accept pr CONFIG_LABEL_DLEQ Ppt Mpt (pt_BASE pr) (pt_BASE pr) cC rC bindC
                = Next (c' = cC))"
proof -
  let ?v = "\<lparr>v_projectId = fst auth, v_limit = snd auth,
             v_originCanonical = originCanonical, v_epochDays = epochDays,
             v_policyId = policyId, v_window = win, v_y = y,
             v_Zprime = p_Zprime pl, v_KID = p_KID pl, v_AADr = p_AADr pl,
             v_c = p_c pl\<rparr>"
  have okC: "piC_check pr Ppt Mpt cC rC bindC = Next (c' = cC)"
    using assms(16,17,18) by (simp add: piC_check_spec_FS [OF assms(1)])
  have cc: "client_checks pr env now d pl auth Ppt Mpt =
      (if c' = cC then Next ?v else Return (error_response 401 ''invalid_piC''))"
    using client_checks_parsed [OF assms(7,14,15), of env now d auth Ppt Mpt] okC
    by (simp add: Let_def assms(8,9,10,11,12,13) [symmetric])
  have ps: "pre_spend pr env now req (w_kv w) =
      (if c' = cC then Next ?v else Return (error_response 401 ''invalid_piC''))"
    using pre_spend_parsed [OF assms(3,4), of now] assms(6) cc
    by (simp add: assms(5) [symmetric])
  have f: "fetch pr env now req w =
      (if c' = cC then finish pr env now ?v w else (error_response 401 ''invalid_piC'', w))"
    by (simp add: fetch_POST [OF assms(2)] ps)
  have "fst (finish pr env now ?v w) \<noteq> error_response 401 ''invalid_piC''"
    using finish_status [of pr env now ?v w] by (auto simp: error_response_def)
  with f have g: "(fst (fetch pr env now req w) = error_response 401 ''invalid_piC'') = (c' \<noteq> cC)"
    by simp
  have h: "spec_dleq_accept pr CONFIG_LABEL_DLEQ Ppt Mpt (pt_BASE pr) (pt_BASE pr) cC rC bindC
                = Next (c' = cC)"
    if "pt_multiply pr (pt_BASE pr) rC = Inr Gr" "pt_multiply pr (pt_BASE pr) cC = Inr Gc"
      "pt_add pr Gr Gc = pt_BASE pr" "0 \<le> cC" "cC < CURVE_n pr"
    using spec_dleq_accept_generator [OF assms(1,16,17,18) that] .
  from f g h show ?thesis by blast
qed

text \<open>
  A presentation with \<open>cC = 9\<close> and \<open>rC = 3\<close> (so \<open>rC + cC\<close> is 1 modulo 11) that the
  handler and the reference equation accept, and the presentation of the examples under
  another request binding, which the handler rejects.
\<close>

theorem invalid_piC_decision_witness:
  "fetch demo demo_env demo_now (demo_request ''epoch=20000;b'') empty_world
     = finish demo demo_env demo_now demo_derived empty_world
   \<and> fst (finish demo demo_env demo_now demo_derived empty_world)
     = \<lparr>http_status = 200, http_body = JSuccess (Some 2) False ''20000''\<rparr>
   \<and> pt_add demo 3 9 = pt_BASE demo
   \<and> spec_dleq_accept demo CONFIG_LABEL_DLEQ 5 9 (pt_BASE demo) (pt_BASE demo) 9 3 [231]
     = Next True
   \<and> fetch demo demo_env demo_now (demo_request ''epoch=20001;a'') empty_world
     = (error_response 401 ''invalid_piC'', empty_world)"
proof -
  let ?b = "demo_payload\<lparr>p_piC := \<lparr>pi_c = ''9'', pi_r = ''3''\<rparr>\<rparr>"
  let ?a = "demo_payload\<lparr>p_epoch := 20001\<rparr>"
  have n: "0 < CURVE_n demo" by (simp add: demo_fields)
  have parse: "JSON_parse demo (r_bodyText (demo_request ''epoch=20000;b'')) = Inr ?b"
    "JSON_parse demo (r_bodyText (demo_request ''epoch=20001;a'')) = Inr ?a"
    by (simp_all add: demo_fields demo_JSON_parse_def demo_request_def)
  have d: "[104] = compute_d demo (demo_request ''epoch=20000;b'') ?b"
    "[104] = compute_d demo (demo_request ''epoch=20001;a'') ?a"
    by (simp_all add: demo_compute_d demo_compute_d_more)
  have issuer: "issuer_checks demo demo_env [104] ?b = Next (5, 9)"
    "issuer_checks demo demo_env [104] ?a = Next (5, 9)"
    by (rule demo_issuer_checks; simp add: demo_payload_def)+
  have origin: "canonicalOrigin demo (p_origin ?b) = Inr ''https://example.com''"
    "canonicalOrigin demo (p_origin ?a) = Inr ''https://example.com''"
    by (simp_all add: demo_payload_def demo_context)
  have ctx: "''20000'' = currentEpochDays demo demo_now"
    "''comments'' = parsePolicyId demo (p_AADr ?b)"
    "''comments'' = parsePolicyId demo (p_AADr ?a)"
    "''20000'' = windowId demo ''20000''"
    "[231] = deriveEta demo (BRASS_ISSUER_PUBKEY demo_env) ''https://example.com'' ''20000''
               ''comments'' ''20000''"
    "[199] = deriveNullifierY demo (p_Zprime ?b) (p_KID ?b) (p_AADr ?b) [231]"
    "[199] = deriveNullifierY demo (p_Zprime ?a) (p_KID ?a) (p_AADr ?a) [231]"
    by (simp_all add: demo_payload_def demo_context)
  have bind: "[231] = bindC_of demo ?b [199] [104] ''20000'' ''comments'' [231]"
    "[231] = bindC_of demo ?a [199] [104] ''20000'' ''comments'' [231]"
    by (rule demo_bindC(2) [symmetric]; simp add: demo_payload_def)+
  have scalars: "bytesToBig (b64urlToBytes demo (pi_c (p_piC ?b))) = Inr 9"
    "bytesToBig (b64urlToBytes demo (pi_r (p_piC ?b))) = Inr 3"
    "bytesToBig (b64urlToBytes demo (pi_c (p_piC ?a))) = Inr 5"
    "bytesToBig (b64urlToBytes demo (pi_r (p_piC ?a))) = Inr 3"
    by (simp_all add: demo_payload_def demo_fields demo_scalars demo_scalar_9)
  note accepted = invalid_piC_decision [where pr = demo and env = demo_env and now = demo_now
      and w = empty_world and Gr = 3 and Gc = 9,
      OF n demo_request_POST demo_authenticate parse(1) d(1) issuer(1) origin(1) ctx(1,2,4,5,6)
        bind(1) scalars(1,2) demo_products(1,2) demo_spec_FS(1)]
  note rejected = invalid_piC_decision [where pr = demo and env = demo_env and now = demo_now
      and w = empty_world and Gr = 3 and Gc = 9,
      OF n demo_request_POST demo_authenticate parse(2) d(2) issuer(2) origin(2) ctx(1,3,4,5,7)
        bind(2) scalars(3,4) demo_products(1,3) demo_spec_FS(2)]
  from accepted [THEN conjunct1]
  have a1: "fetch demo demo_env demo_now (demo_request ''epoch=20000;b'') empty_world
     = finish demo demo_env demo_now demo_derived empty_world"
    by (simp add: demo_derived_def demo_payload_def)
  have "9 < CURVE_n demo" by (simp add: demo_fields)
  then have hyp: "pt_multiply demo (pt_BASE demo) 3 = Inr 3 \<and> pt_multiply demo (pt_BASE demo) 9 = Inr 9
      \<and> pt_add demo 3 9 = pt_BASE demo \<and> (0::int) \<le> 9 \<and> 9 < CURVE_n demo"
    by (simp add: demo_products)
  from accepted hyp
  have a2: "spec_dleq_accept demo CONFIG_LABEL_DLEQ 5 9 (pt_BASE demo) (pt_BASE demo) 9 3 [231]
     = Next True"
    by simp
  from rejected have r1: "fetch demo demo_env demo_now (demo_request ''epoch=20001;a'') empty_world
     = (error_response 401 ''invalid_piC'', empty_world)"
    by simp
  have s: "fst (finish demo demo_env demo_now demo_derived empty_world)
     = \<lparr>http_status = 200, http_body = JSuccess (Some 2) False ''20000''\<rparr>"
    by (simp add: demo_finish_fst demo_guard demo_spend_result demo_replies)
  from a1 a2 r1 s demo_products(6) show ?thesis by simp
qed

text \<open>
  C1 as the specification words it fails: the handler accepts the presentation of the
  examples (the response is the success), and the reference equation, which hashes
  \<open>A2' = G^rC \<cdot> G^cC\<close>, rejects the same proof under the same binding.
\<close>

theorem piC_differs_from_spec_equation:
  "fst (fetch demo demo_env demo_now (demo_request ''epoch=20000;a'') empty_world)
     = \<lparr>http_status = 200, http_body = JSuccess (Some 2) False ''20000''\<rparr>
   \<and> JSON_parse demo ''epoch=20000;a'' = Inr demo_payload
   \<and> decodePoint demo (p_P demo_payload) = Inr 5
   \<and> decodePoint demo (p_M demo_payload) = Inr 9
   \<and> bytesToBig (b64urlToBytes demo (pi_c (p_piC demo_payload))) = Inr 5
   \<and> bytesToBig (b64urlToBytes demo (pi_r (p_piC demo_payload))) = Inr 3
   \<and> bindC_of demo demo_payload [199]
        (compute_d demo (demo_request ''epoch=20000;a'') demo_payload)
        ''20000'' ''comments'' [231] = [230]
   \<and> piC_check demo 5 9 5 3 [230] = Next True
   \<and> spec_dleq_accept demo CONFIG_LABEL_DLEQ 5 9 (pt_BASE demo) (pt_BASE demo) 5 3 [230]
       = Next False"
  by (simp add: demo_fetch_success demo_JSON_parse_bodies demo_compute_d demo_piC demo_spec_dleq
      demo_bindC_payload)
    (simp add: demo_payload_def demo_decodePoint demo_scalars demo_fields)

text \<open>
  C2. A spend whose idempotency record is present returns the stored decision with
  \<open>idempotent = true\<close> added, on either backend, for a stored success and for a stored
  denial. On the Durable Object backend the code does not: \<^verbatim>\<open>handleSpend\<close> answers a
  stored denial with status 429, and \<^verbatim>\<open>DurableObjectStore.spend\<close> takes every status
  outside 200-299 for an error and rebuilds the result from the \<open>error\<close> field alone.
  A first spend with limit 0 stores the denial; its replay on the Durable Object backend
  returns neither \<open>remaining\<close> nor \<open>idempotent\<close>, while the KV backend returns the stored
  denial with \<open>idempotent = true\<close>.
\<close>

theorem durable_object_replay_of_denial:
  "fst (DurableObjectStore_spend demo_buildCounterKey demo_key ''1'' 0 60
          (snd (DurableObjectStore_spend demo_buildCounterKey demo_key ''1'' 0 60
                  (\<lambda>name. Map.empty))))
     = \<lparr>ok = False, error = Some ''limit_exceeded'', remaining = None, idempotent = None\<rparr>
   \<and> fst (KVStore_spend demo_buildCounterKey demo_buildLegacyCounterKey demo_key ''1'' 0 60
          (snd (KVStore_spend demo_buildCounterKey demo_buildLegacyCounterKey demo_key ''1'' 0 60
                  Map.empty)))
     = \<lparr>ok = False, error = Some ''limit_exceeded'', remaining = Some 0, idempotent = Some True\<rparr>"
  by (simp add: store_eval)

text \<open>
  C3 (as the code has it). A spend with no idempotency record, in \<^verbatim>\<open>KVStore.spend\<close> and
  in \<^verbatim>\<open>BrassCounterDO.handleSpend\<close>, when the limit is a safe integer and the stored
  counts are safe integers that are not negative (the range in which the arithmetic of
  the code, done in doubles, is exact). Let \<open>C\<close> be the count at the limit comparison: the
  namespaced count, or the legacy count when the namespaced count reads 0 and the legacy
  count is positive (the migration fallback, which copies the legacy count to the
  namespaced counter). If \<open>C \<ge> limit\<close> the call returns the denial with \<open>remaining = 0\<close>
  and stores it under the idempotency key with \<open>ttlSeconds\<close>; the counter is unchanged
  unless the fallback has copied the legacy count to it. Otherwise the counter becomes
  \<open>C + 1\<close>, the call returns the success with \<open>remaining = max 0 (limit - (C + 1))\<close>, and
  the counter and the idempotency record are stored with the same \<open>ttlSeconds\<close>. No other
  key changes.
\<close>

theorem spend_without_record:
  assumes "storage_get kv (ik_key (k_projectId key) IK) = None"
      and "storage_get st (ik_key pid IK) = None"
      and "isSafeInteger limit"
      and "\<forall>n \<in> {parseCount (storage_get kv (count_key (bck key))),
                 parseCount (storage_get kv (count_key (blk key))),
                 parseCount (storage_get st ''count''),
                 parseCount (storage_get st ''legacy_count'')}. 0 \<le> n \<and> isSafeInteger n"
  shows
    "(let ck = count_key (bck key); ik = ik_key (k_projectId key) IK;
          migrated = (parseCount (storage_get kv ck) = 0
                      \<and> 0 < parseCount (storage_get kv (count_key (blk key))));
          C = (if migrated then parseCount (storage_get kv (count_key (blk key)))
               else parseCount (storage_get kv ck));
          res = fst (KVStore_spend bck blk key IK limit ttl kv);
          kv' = snd (KVStore_spend bck blk key IK limit ttl kv)
      in (limit \<le> C \<longrightarrow>
            res = failureResponse
            \<and> kv' ik = Some \<lparr>content = Doc failureResponse, expirationTtl = Some ttl\<rparr>
            \<and> (if migrated
               then kv' ck = Some \<lparr>content = Num C, expirationTtl = Some ttl\<rparr>
               else kv' ck = kv ck))
       \<and> (C < limit \<longrightarrow>
            res = successResponse (max 0 (limit - (C + 1)))
            \<and> kv' ck = Some \<lparr>content = Num (C + 1), expirationTtl = Some ttl\<rparr>
            \<and> kv' ik = Some \<lparr>content = Doc res, expirationTtl = Some ttl\<rparr>)
       \<and> (\<forall>k. k \<noteq> ik \<and> k \<noteq> ck \<longrightarrow> kv' k = kv k))
   \<and>
     (let ik = ik_key pid IK;
          migrated = (parseCount (storage_get st ''count'') = 0
                      \<and> 0 < parseCount (storage_get st ''legacy_count''));
          C = (if migrated then parseCount (storage_get st ''legacy_count'')
               else parseCount (storage_get st ''count''));
          res = fst (BrassCounterDO_handleSpend pid IK limit ttl st);
          st' = snd (BrassCounterDO_handleSpend pid IK limit ttl st)
      in (limit \<le> C \<longrightarrow>
            res = (429, failureResponse)
            \<and> st' ik = Some \<lparr>content = Doc failureResponse, expirationTtl = Some ttl\<rparr>
            \<and> (if migrated
               then storage_get st' ''count'' = Some (Num C)
               else st' ''count'' = st ''count''))
       \<and> (C < limit \<longrightarrow>
            res = (200, successResponse (max 0 (limit - (C + 1))))
            \<and> st' ''count'' = Some \<lparr>content = Num (C + 1), expirationTtl = Some ttl\<rparr>
            \<and> st' ik = Some \<lparr>content = Doc (snd res), expirationTtl = Some ttl\<rparr>)
       \<and> (\<forall>k. k \<noteq> ik \<and> k \<noteq> ''count'' \<longrightarrow> st' k = st k))"
  using spend_without_record_kv [OF assms(1)] spend_without_record_do [OF assms(2)]
  by (rule conjI)

text \<open>
  A denial after the fallback on the KV store, and a first spend on an empty Durable
  Object.
\<close>

theorem spend_without_record_witness:
  "storage_get legacy_kv (ik_key (k_projectId demo_key) ''1'') = None
   \<and> storage_get Map.empty (ik_key ''test_project'' ''1'') = None
   \<and> isSafeInteger 3
   \<and> parseCount (storage_get legacy_kv (count_key (demo_buildLegacyCounterKey demo_key))) = 5
   \<and> isSafeInteger 5
   \<and> fst (KVStore_spend demo_buildCounterKey demo_buildLegacyCounterKey demo_key ''1'' 3 60
           legacy_kv) = failureResponse
   \<and> BrassCounterDO_handleSpend ''test_project'' ''1'' 3 60 Map.empty
       = ((200, successResponse 2),
          storage_put (storage_put Map.empty ''count'' (Num 1) (Some 60))
            (ik_key ''test_project'' ''1'') (Doc (successResponse 2)) (Some 60))"
proof -
  have h: "storage_get legacy_kv (ik_key (k_projectId demo_key) ''1'') = None"
    "storage_get Map.empty (ik_key ''test_project'' ''1'') = None"
    by (simp_all add: legacy_kv_def store_eval)
  have v: "parseCount (storage_get legacy_kv (count_key (demo_buildCounterKey demo_key))) = 0"
    "parseCount (storage_get legacy_kv (count_key (demo_buildLegacyCounterKey demo_key))) = 5"
    "parseCount (storage_get Map.empty ''count'') = 0"
    "parseCount (storage_get Map.empty ''legacy_count'') = 0"
    by (simp_all add: legacy_kv_def store_eval)
  have range: "isSafeInteger 3"
    "\<forall>n \<in> {parseCount (storage_get legacy_kv (count_key (demo_buildCounterKey demo_key))),
             parseCount (storage_get legacy_kv (count_key (demo_buildLegacyCounterKey demo_key))),
             parseCount (storage_get Map.empty ''count''),
             parseCount (storage_get Map.empty ''legacy_count'')}. 0 \<le> n \<and> isSafeInteger n"
    by (simp_all add: legacy_kv_def store_eval isSafeInteger_def)
  from spend_without_record [where bck = demo_buildCounterKey
      and blk = demo_buildLegacyCounterKey and key = demo_key and ttl = 60, OF h range] v
  have kv: "fst (KVStore_spend demo_buildCounterKey demo_buildLegacyCounterKey demo_key ''1'' 3 60
           legacy_kv) = failureResponse"
    and d: "fst (BrassCounterDO_handleSpend ''test_project'' ''1'' 3 60 Map.empty)
        = (200, successResponse 2)"
      "snd (BrassCounterDO_handleSpend ''test_project'' ''1'' 3 60 Map.empty) ''count''
        = Some \<lparr>content = Num 1, expirationTtl = Some 60\<rparr>"
      "snd (BrassCounterDO_handleSpend ''test_project'' ''1'' 3 60 Map.empty)
         (ik_key ''test_project'' ''1'')
        = Some \<lparr>content = Doc (successResponse 2), expirationTtl = Some 60\<rparr>"
      "\<forall>k. k \<noteq> ik_key ''test_project'' ''1'' \<and> k \<noteq> ''count'' \<longrightarrow>
         snd (BrassCounterDO_handleSpend ''test_project'' ''1'' 3 60 Map.empty) k = None"
    by (simp_all add: Let_def)
  have "snd (BrassCounterDO_handleSpend ''test_project'' ''1'' 3 60 Map.empty)
      = storage_put (storage_put Map.empty ''count'' (Num 1) (Some 60))
            (ik_key ''test_project'' ''1'') (Doc (successResponse 2)) (Some 60)"
    using d(2,3,4) by (auto simp: fun_eq_iff)
  with d(1) have "BrassCounterDO_handleSpend ''test_project'' ''1'' 3 60 Map.empty
       = ((200, successResponse 2),
          storage_put (storage_put Map.empty ''count'' (Num 1) (Some 60))
            (ik_key ''test_project'' ''1'') (Doc (successResponse 2)) (Some 60))"
    by (metis prod.collapse)
  with h kv v(2) show ?thesis by (simp add: isSafeInteger_def)
qed

text \<open>
  C3 as the specification words it fails where it says that a denial leaves the counter
  unchanged: with a legacy count of 5 and the limit 3 the spend is denied, and the
  namespaced counter, absent before, holds 5 afterwards.
\<close>

theorem migration_changes_counter_on_denial:
  "storage_get legacy_kv (ik_key (k_projectId demo_key) ''1'') = None
   \<and> fst (KVStore_spend demo_buildCounterKey demo_buildLegacyCounterKey demo_key ''1'' 3 60
           legacy_kv) = failureResponse
   \<and> legacy_kv (count_key (demo_buildCounterKey demo_key)) = None
   \<and> snd (KVStore_spend demo_buildCounterKey demo_buildLegacyCounterKey demo_key ''1'' 3 60
           legacy_kv) (count_key (demo_buildCounterKey demo_key))
       = Some \<lparr>content = Num 5, expirationTtl = Some 60\<rparr>"
  by (simp add: store_eval legacy_kv_def)

text \<open>
  C4 (as the code has it). Inside the grace period, when the grace cache has no entry
  for the presentation, the handler calls \<^verbatim>\<open>cacheGraceResponse\<close> with the spend result
  before it looks at \<open>result.ok\<close>: the entry under the grace key after the request is the
  result of the spend, a success or a denial.
\<close>

theorem grace_cache_holds_spend_result:
  assumes "r_method req = ''POST''"
      and "pre_spend pr env now req (w_kv w) = Next v"
      and "isInGracePeriod pr now (boundaryGraceSeconds env)"
      and "store_guardGrace (choose_store env) (v_projectId v) (graceKey_of pr env v)
             (boundaryGraceSeconds env) w = None"
  shows "store_guardGrace (choose_store env) (v_projectId v) (graceKey_of pr env v)
           (boundaryGraceSeconds env) (snd (fetch pr env now req w))
         = Some (fst (store_spend pr (choose_store env) (counter_key_of pr env v)
                        (IK_of pr env v) (v_limit v)
                        (secondsUntilWindowEnd pr now (v_epochDays v)) w))"
proof -
  let ?sp = "store_spend pr (choose_store env) (counter_key_of pr env v) (IK_of pr env v)
               (v_limit v) (secondsUntilWindowEnd pr now (v_epochDays v)) w"
  have f: "fetch pr env now req w = finish pr env now v w"
    using assms(1,2) by (simp add: fetch_def)
  have miss: "store_guardGrace (choose_store env) (v_projectId v) (graceKey_of pr env v)
               (boundaryGraceSeconds env) (snd ?sp) = None"
    using assms(4) by (simp add: store_spend_guardGrace)
  have "snd (finish pr env now v w)
          = store_cacheGraceResponse (choose_store env) (v_projectId v) (graceKey_of pr env v)
              (boundaryGraceSeconds env) (fst ?sp) (snd ?sp)"
    using assms(3,4)
    by (cases ?sp) (simp add: finish_def grace_guard_def spend_and_reply_def Let_def)
  with f cacheGraceResponse_miss [OF miss] show ?thesis by simp
qed

text \<open>A success and a denial, each cached by the request that produced it.\<close>

theorem grace_cache_holds_spend_result_witness:
  "store_guardGrace KV ''test_project'' ''4'' 60
       (snd (fetch demo demo_env demo_now (demo_request ''epoch=20000;a'') empty_world))
     = Some (successResponse 2)
   \<and> store_guardGrace KV ''test_project'' ''4'' 60
       (snd (fetch demo demo_env demo_now (demo_request ''epoch=20000;a'') exhausted_world))
     = Some failureResponse"
  using
    grace_cache_holds_spend_result [of "demo_request ''epoch=20000;a''" demo demo_env demo_now
      empty_world demo_derived]
    grace_cache_holds_spend_result [of "demo_request ''epoch=20000;a''" demo demo_env demo_now
      exhausted_world demo_derived]
  by (simp add: demo_request_POST demo_pre_spend demo_spend_params demo_guard demo_spend_result)

text \<open>
  C4 as the specification words it fails: a request inside the grace period against an
  exhausted counter is answered 429, and its denial is then the entry of the grace cache.
\<close>

theorem denial_in_grace_cache:
  "fst (fetch demo demo_env demo_now (demo_request ''epoch=20000;a'') exhausted_world)
     = \<lparr>http_status = 429, http_body = JDenied (Some ''limit_exceeded'') 0 ''20000''\<rparr>
   \<and> store_guardGrace KV ''test_project'' ''4'' 60
       (snd (fetch demo demo_env demo_now (demo_request ''epoch=20000;a'') exhausted_world))
     = Some failureResponse
   \<and> \<not> ok failureResponse"
  by (simp add: demo_fetch_fst demo_fetch_snd demo_pre_spend demo_guard demo_spend_result
      demo_replies)
    (simp add: failureResponse_def)

text \<open>
  C5. Inside the grace period, when \<^verbatim>\<open>guardGrace\<close> hits: a cached response with
  \<open>ok = true\<close> is returned with status 200 and \<open>windowUsed = grace_cached\<close>, and the
  store is not touched; a cached response with \<open>ok = false\<close> is not replayed, and the answer is
  that of a fresh spend in the current window (the grace entry stays as it is).
\<close>

theorem grace_hit:
  assumes "r_method req = ''POST''"
      and "pre_spend pr env now req (w_kv w) = Next v"
      and "isInGracePeriod pr now (boundaryGraceSeconds env)"
      and "store_guardGrace (choose_store env) (v_projectId v) (graceKey_of pr env v)
             (boundaryGraceSeconds env) w = Some cached"
  shows "(ok cached \<longrightarrow>
            fetch pr env now req w = (\<lparr>http_status = 200, http_body = JGrace cached\<rparr>, w))
       \<and> (\<not> ok cached \<longrightarrow>
            fetch pr env now req w =
              (reply (v_window v)
                 (fst (store_spend pr (choose_store env) (counter_key_of pr env v)
                         (IK_of pr env v) (v_limit v)
                         (secondsUntilWindowEnd pr now (v_epochDays v)) w)),
               snd (store_spend pr (choose_store env) (counter_key_of pr env v)
                      (IK_of pr env v) (v_limit v)
                      (secondsUntilWindowEnd pr now (v_epochDays v)) w)))"
proof -
  let ?sp = "store_spend pr (choose_store env) (counter_key_of pr env v) (IK_of pr env v)
               (v_limit v) (secondsUntilWindowEnd pr now (v_epochDays v)) w"
  have f: "fetch pr env now req w = finish pr env now v w"
    using assms(1,2) by (simp add: fetch_def)
  have hit: "store_guardGrace (choose_store env) (v_projectId v) (graceKey_of pr env v)
               (boundaryGraceSeconds env) (snd ?sp) = Some cached"
    using assms(4) by (simp add: store_spend_guardGrace)
  have keep: "store_cacheGraceResponse (choose_store env) (v_projectId v) (graceKey_of pr env v)
               (boundaryGraceSeconds env) (fst ?sp) (snd ?sp) = snd ?sp"
    using hit by (rule cacheGraceResponse_hit)
  have replay: "ok cached \<Longrightarrow>
      finish pr env now v w = (\<lparr>http_status = 200, http_body = JGrace cached\<rparr>, w)"
    using assms(3,4) by (simp add: finish_def grace_guard_def)
  have again: "\<not> ok cached \<Longrightarrow> finish pr env now v w = (reply (v_window v) (fst ?sp), snd ?sp)"
    using assms(3,4) keep
    by (cases ?sp) (simp add: finish_def grace_guard_def spend_and_reply_def Let_def)
  from f replay again show ?thesis by simp
qed

text \<open>
  A cached success is replayed; over a cached denial the same presentation is spent anew
  and succeeds.
\<close>

theorem grace_hit_witness:
  "fetch demo demo_env demo_now (demo_request ''epoch=20000;a'') grace_success_world
     = (\<lparr>http_status = 200, http_body = JGrace (successResponse 2)\<rparr>, grace_success_world)
   \<and> fst (fetch demo demo_env demo_now (demo_request ''epoch=20000;a'') grace_denied_world)
     = \<lparr>http_status = 200, http_body = JSuccess (Some 2) False ''20000''\<rparr>"
  using
    grace_hit [of "demo_request ''epoch=20000;a''" demo demo_env demo_now
      grace_success_world demo_derived "successResponse 2"]
    grace_hit [of "demo_request ''epoch=20000;a''" demo demo_env demo_now
      grace_denied_world demo_derived failureResponse]
  by (simp add: demo_request_POST demo_pre_spend demo_spend_params demo_guard demo_spend_result
      demo_replies)
    (simp add: successResponse_def failureResponse_def)

text \<open>
  C6 (as the code has it). On an authenticated POST request whose body parses:
  the first of the points \<open>P\<close>, \<open>M\<close>, \<open>Z\<close>, \<open>Zprime\<close> and the issuer key that does not
  decode makes the answer 500 with the body \<^verbatim>\<open>{ error: kind }\<close>, where the kind is
  \<open>invalid_point_encoding\<close> for bytes that are no point and \<open>invalid_point_infinity\<close> for
  the point at infinity; an issuer proof that does not verify is answered 401
  \<open>invalid_piI\<close>; a \<open>d_client\<close> that differs from \<open>d\<close> is answered 401 \<open>d_mismatch\<close>; an
  origin that does not canonicalize is answered 500 with the kind that the
  canonicalization has thrown; a client proof that does not verify is answered 401
  \<open>invalid_piC\<close>. In all these cases the store is as before. Every exception before the
  spend is answered 500 with its message, and the only responses returned early after
  authentication are the three with status 401.
\<close>

theorem error_statuses:
  assumes "r_method req = ''POST''"
      and "authenticate pr env req (w_kv w) = Next auth"
      and "JSON_parse pr (r_bodyText req) = Inr pl"
      and "d = compute_d pr req pl"
      and "k \<noteq> []"
  shows
    "(i < 5 \<and> (\<forall>j<i. \<exists>pt. decodePoint pr (decoded_fields env pl ! j) = Inr pt)
        \<and> decodePoint pr (decoded_fields env pl ! i) = Inl k
      \<longrightarrow> fetch pr env now req w = (error_response 500 k, w))
   \<and> (pt_fromHex pr (b64urlToBytes pr s) = None
      \<longrightarrow> decodePoint pr s = Inl ''invalid_point_encoding'')
   \<and> (pt_fromHex pr (b64urlToBytes pr s) = Some pt \<and> pt_assertValidity pr pt = None
        \<and> pt_equals pr pt (pt_ZERO pr)
      \<longrightarrow> decodePoint pr s = Inl ''invalid_point_infinity'')
   \<and> (decodePoint pr (p_P pl) = Inr Ppt \<and> decodePoint pr (p_M pl) = Inr Mpt
        \<and> decodePoint pr (p_Z pl) = Inr Zpt \<and> decodePoint pr (p_Zprime pl) = Inr Zppt
        \<and> decodePoint pr (BRASS_ISSUER_PUBKEY env) = Inr Y
        \<and> bytesToBig (b64urlToBytes pr (pi_c (p_piI pl))) = Inr cI
        \<and> bytesToBig (b64urlToBytes pr (pi_r (p_piI pl))) = Inr rI
        \<and> piI_check pr Y Mpt Zpt cI rI = Next okI
      \<longrightarrow> (\<not> okI \<longrightarrow> fetch pr env now req w = (error_response 401 ''invalid_piI'', w))
        \<and> (okI \<and> truthy (p_d_client pl)
             \<and> \<not> ctEqual d (b64urlToBytes pr (orElse (p_d_client pl) []))
            \<longrightarrow> fetch pr env now req w = (error_response 401 ''d_mismatch'', w))
        \<and> (okI \<and> \<not> (truthy (p_d_client pl)
                        \<and> \<not> ctEqual d (b64urlToBytes pr (orElse (p_d_client pl) [])))
            \<longrightarrow> issuer_checks pr env d pl = Next (Ppt, Mpt)))
   \<and> (issuer_checks pr env d pl = Next (Ppt, Mpt) \<and> canonicalOrigin pr (p_origin pl) = Inl k
      \<longrightarrow> fetch pr env now req w = (error_response 500 k, w))
   \<and> (issuer_checks pr env d pl = Next (Ppt, Mpt)
        \<and> canonicalOrigin pr (p_origin pl) = Inr originCanonical
        \<and> bytesToBig (b64urlToBytes pr (pi_c (p_piC pl))) = Inr cC
        \<and> bytesToBig (b64urlToBytes pr (pi_r (p_piC pl))) = Inr rC
        \<and> (let epochDays = currentEpochDays pr now;
                policyId = parsePolicyId pr (p_AADr pl);
                win = windowId pr epochDays;
                eta = deriveEta pr (BRASS_ISSUER_PUBKEY env) originCanonical epochDays
                        policyId win;
                y = deriveNullifierY pr (p_Zprime pl) (p_KID pl) (p_AADr pl) eta
            in piC_check pr Ppt Mpt cC rC (bindC_of pr pl y d win policyId eta)) = Next False
      \<longrightarrow> fetch pr env now req w = (error_response 401 ''invalid_piC'', w))
   \<and> (pre_spend pr env now req (w_kv w) = Throw k
      \<longrightarrow> fetch pr env now req w = (error_response 500 k, w))
   \<and> (pre_spend pr env now req (w_kv w) = Return r
      \<longrightarrow> fetch pr env now req w = (r, w)
        \<and> (r = error_response 401 ''invalid_piI'' \<or> r = error_response 401 ''d_mismatch''
           \<or> r = error_response 401 ''invalid_piC''))"
proof -
  note ps = pre_spend_parsed [OF assms(2,3), of now, folded assms(4)]
  note f = fetch_POST [OF assms(1), of pr env now w]
  have c1: "fetch pr env now req w = (error_response 500 k, w)"
    if "i < 5" "\<forall>j<i. \<exists>pt. decodePoint pr (decoded_fields env pl ! j) = Inr pt"
      "decodePoint pr (decoded_fields env pl ! i) = Inl k"
    using issuer_checks_decode_failure [OF that, of d] assms(5) by (simp add: f ps)
  have c2: "pt_fromHex pr (b64urlToBytes pr s) = None
      \<longrightarrow> decodePoint pr s = Inl ''invalid_point_encoding''"
    by (simp add: decodePoint_def)
  have c3: "pt_fromHex pr (b64urlToBytes pr s) = Some pt \<and> pt_assertValidity pr pt = None
        \<and> pt_equals pr pt (pt_ZERO pr)
      \<longrightarrow> decodePoint pr s = Inl ''invalid_point_infinity''"
    by (simp add: decodePoint_def)
  have c4: "(\<not> okI \<longrightarrow> fetch pr env now req w = (error_response 401 ''invalid_piI'', w))
        \<and> (okI \<and> truthy (p_d_client pl)
             \<and> \<not> ctEqual d (b64urlToBytes pr (orElse (p_d_client pl) []))
            \<longrightarrow> fetch pr env now req w = (error_response 401 ''d_mismatch'', w))
        \<and> (okI \<and> \<not> (truthy (p_d_client pl)
                        \<and> \<not> ctEqual d (b64urlToBytes pr (orElse (p_d_client pl) [])))
            \<longrightarrow> issuer_checks pr env d pl = Next (Ppt, Mpt))"
    if "decodePoint pr (p_P pl) = Inr Ppt" "decodePoint pr (p_M pl) = Inr Mpt"
      "decodePoint pr (p_Z pl) = Inr Zpt" "decodePoint pr (p_Zprime pl) = Inr Zppt"
      "decodePoint pr (BRASS_ISSUER_PUBKEY env) = Inr Y"
      "bytesToBig (b64urlToBytes pr (pi_c (p_piI pl))) = Inr cI"
      "bytesToBig (b64urlToBytes pr (pi_r (p_piI pl))) = Inr rI"
      "piI_check pr Y Mpt Zpt cI rI = Next okI"
    by (simp add: f ps issuer_checks_decoded [OF that])
  have c5: "fetch pr env now req w = (error_response 500 k, w)"
    if "issuer_checks pr env d pl = Next (Ppt, Mpt)" "canonicalOrigin pr (p_origin pl) = Inl k"
    using that assms(5) by (simp add: f ps client_checks_def)
  have c6: "fetch pr env now req w = (error_response 401 ''invalid_piC'', w)"
    if "issuer_checks pr env d pl = Next (Ppt, Mpt)"
      "canonicalOrigin pr (p_origin pl) = Inr originCanonical"
      "bytesToBig (b64urlToBytes pr (pi_c (p_piC pl))) = Inr cC"
      "bytesToBig (b64urlToBytes pr (pi_r (p_piC pl))) = Inr rC"
      "(let epochDays = currentEpochDays pr now;
            policyId = parsePolicyId pr (p_AADr pl);
            win = windowId pr epochDays;
            eta = deriveEta pr (BRASS_ISSUER_PUBKEY env) originCanonical epochDays
                    policyId win;
            y = deriveNullifierY pr (p_Zprime pl) (p_KID pl) (p_AADr pl) eta
        in piC_check pr Ppt Mpt cC rC (bindC_of pr pl y d win policyId eta)) = Next False"
    using that(1,5) by (simp add: f ps client_checks_parsed [OF that(2,3,4)] Let_def)
  have c7: "pre_spend pr env now req (w_kv w) = Throw k
      \<longrightarrow> fetch pr env now req w = (error_response 500 k, w)"
    using assms(5) by (simp add: f)
  have c8: "fetch pr env now req w = (r, w)
        \<and> (r = error_response 401 ''invalid_piI'' \<or> r = error_response 401 ''d_mismatch''
           \<or> r = error_response 401 ''invalid_piC'')"
    if "pre_spend pr env now req (w_kv w) = Return r"
  proof -
    from that assms(2) have "verify pr env now req auth = Return r"
      by (simp add: pre_spend_def)
    from verify_Return [OF this] that show ?thesis by (simp add: f)
  qed
  from c1 c2 c3 c4 c5 c6 c7 c8 show ?thesis by blast
qed

text \<open>
  One request for each cause: an empty \<open>P\<close> and a \<open>Z\<close> at infinity (500), a wrong issuer
  proof and a wrong \<open>d_client\<close> (401), an origin over http (500), a client proof under
  another request binding (401).
\<close>

theorem error_statuses_witness:
  "fetch demo demo_env demo_now (demo_request ''epoch=20000;P='') exhausted_world
     = (error_response 500 ''invalid_point_encoding'', exhausted_world)
   \<and> fetch demo demo_env demo_now (demo_request ''epoch=20000;Z0'') exhausted_world
     = (error_response 500 ''invalid_point_infinity'', exhausted_world)
   \<and> decodePoint demo [] = Inl ''invalid_point_encoding''
   \<and> decodePoint demo ''20'' = Inl ''invalid_point_infinity''
   \<and> fetch demo demo_env demo_now (demo_request ''epoch=20000;I'') exhausted_world
     = (error_response 401 ''invalid_piI'', exhausted_world)
   \<and> fetch demo demo_env demo_now (demo_request ''epoch=20000;D'') exhausted_world
     = (error_response 401 ''d_mismatch'', exhausted_world)
   \<and> fetch demo demo_env demo_now (demo_request ''epoch=20000;O'') exhausted_world
     = (error_response 500 ''origin_must_be_https'', exhausted_world)
   \<and> fetch demo demo_env demo_now (demo_request ''epoch=20001;a'') exhausted_world
     = (error_response 401 ''invalid_piC'', exhausted_world)"
proof -
  let ?P = "demo_payload\<lparr>p_P := []\<rparr>"
  let ?Z = "demo_payload\<lparr>p_Z := ''20''\<rparr>"
  let ?I = "demo_payload\<lparr>p_piI := \<lparr>pi_c = ''4'', pi_r = ''4''\<rparr>\<rparr>"
  let ?D = "demo_payload\<lparr>p_d_client := Some ''9''\<rparr>"
  let ?O = "demo_payload\<lparr>p_origin := ''http://example.com''\<rparr>"
  let ?a = "demo_payload\<lparr>p_epoch := 20001\<rparr>"
  have parse: "JSON_parse demo (r_bodyText (demo_request ''epoch=20000;P='')) = Inr ?P"
    "JSON_parse demo (r_bodyText (demo_request ''epoch=20000;Z0'')) = Inr ?Z"
    "JSON_parse demo (r_bodyText (demo_request ''epoch=20000;I'')) = Inr ?I"
    "JSON_parse demo (r_bodyText (demo_request ''epoch=20000;D'')) = Inr ?D"
    "JSON_parse demo (r_bodyText (demo_request ''epoch=20000;O'')) = Inr ?O"
    "JSON_parse demo (r_bodyText (demo_request ''epoch=20001;a'')) = Inr ?a"
    by (simp_all add: demo_fields demo_JSON_parse_def demo_request_def)
  have kind: "''invalid_point_encoding'' \<noteq> []" "''invalid_point_infinity'' \<noteq> []"
    "''invalid_piI'' \<noteq> []" "''d_mismatch'' \<noteq> []" "''origin_must_be_https'' \<noteq> []"
    "''invalid_piC'' \<noteq> []"
    by simp_all
  note th = error_statuses [where pr = demo and env = demo_env and now = demo_now
      and w = exhausted_world, OF demo_request_POST demo_authenticate _ refl]

  have "0 < (5::nat) \<and> (\<forall>j<0. \<exists>pt. decodePoint demo (decoded_fields demo_env ?P ! j) = Inr pt)
      \<and> decodePoint demo (decoded_fields demo_env ?P ! 0) = Inl ''invalid_point_encoding''"
    by (simp add: decoded_fields_def demo_decodePoint)
  with th [OF parse(1) kind(1), where i = 0, THEN conjunct1]
  have P: "fetch demo demo_env demo_now (demo_request ''epoch=20000;P='') exhausted_world
     = (error_response 500 ''invalid_point_encoding'', exhausted_world)"
    by blast

  have "2 < (5::nat) \<and> (\<forall>j<2. \<exists>pt. decodePoint demo (decoded_fields demo_env ?Z ! j) = Inr pt)
      \<and> decodePoint demo (decoded_fields demo_env ?Z ! 2) = Inl ''invalid_point_infinity''"
    by (simp add: decoded_fields_def demo_payload_def demo_decodePoint
        demo_decodePoint_infinity less_Suc_eq numeral_2_eq_2)
  with th [OF parse(2) kind(2), where i = 2, THEN conjunct1]
  have Z: "fetch demo demo_env demo_now (demo_request ''epoch=20000;Z0'') exhausted_world
     = (error_response 500 ''invalid_point_infinity'', exhausted_world)"
    by blast

  from th [OF parse(1) kind(1), where s = "[]", THEN conjunct2, THEN conjunct1]
    demo_decodePoint_infinity(2)
  have k1: "decodePoint demo [] = Inl ''invalid_point_encoding''"
    by blast
  from th [OF parse(1) kind(1), where s = "''20''" and pt = 0,
      THEN conjunct2, THEN conjunct2, THEN conjunct1]
    demo_decodePoint_infinity(1,3,4)
  have k2: "decodePoint demo ''20'' = Inl ''invalid_point_infinity''"
    by blast

  have "decodePoint demo (p_P ?I) = Inr 5 \<and> decodePoint demo (p_M ?I) = Inr 9
      \<and> decodePoint demo (p_Z ?I) = Inr 5 \<and> decodePoint demo (p_Zprime ?I) = Inr 4
      \<and> decodePoint demo (BRASS_ISSUER_PUBKEY demo_env) = Inr 3
      \<and> bytesToBig (b64urlToBytes demo (pi_c (p_piI ?I))) = Inr 4
      \<and> bytesToBig (b64urlToBytes demo (pi_r (p_piI ?I))) = Inr 4
      \<and> piI_check demo 3 9 5 4 4 = Next False"
    by (simp add: demo_payload_def demo_env_def demo_decodePoint demo_fields demo_scalars
        demo_piI_wrong)
  with th [OF parse(3) kind(3), where okI = False,
      THEN conjunct2, THEN conjunct2, THEN conjunct2, THEN conjunct1]
  have I: "fetch demo demo_env demo_now (demo_request ''epoch=20000;I'') exhausted_world
     = (error_response 401 ''invalid_piI'', exhausted_world)"
    by blast

  have "decodePoint demo (p_P ?D) = Inr 5 \<and> decodePoint demo (p_M ?D) = Inr 9
      \<and> decodePoint demo (p_Z ?D) = Inr 5 \<and> decodePoint demo (p_Zprime ?D) = Inr 4
      \<and> decodePoint demo (BRASS_ISSUER_PUBKEY demo_env) = Inr 3
      \<and> bytesToBig (b64urlToBytes demo (pi_c (p_piI ?D))) = Inr 3
      \<and> bytesToBig (b64urlToBytes demo (pi_r (p_piI ?D))) = Inr 4
      \<and> piI_check demo 3 9 5 3 4 = Next True"
    by (simp add: demo_payload_def demo_env_def demo_decodePoint demo_fields demo_scalars
        demo_piI)
  moreover have "truthy (p_d_client ?D)
      \<and> \<not> ctEqual (compute_d demo (demo_request ''epoch=20000;D'') ?D)
            (b64urlToBytes demo (orElse (p_d_client ?D) []))"
    by (simp add: demo_compute_d_more truthy_def orElse_def demo_fields demo_b64urlToBytes_def
        demo_ctEqual)
  ultimately
  have D: "fetch demo demo_env demo_now (demo_request ''epoch=20000;D'') exhausted_world
     = (error_response 401 ''d_mismatch'', exhausted_world)"
    using th [OF parse(4) kind(4), where okI = True,
      THEN conjunct2, THEN conjunct2, THEN conjunct2, THEN conjunct1]
    by blast

  have issuer: "issuer_checks demo demo_env d ?O = Next (5, 9)"
    "issuer_checks demo demo_env d ?a = Next (5, 9)" for d
    by (rule demo_issuer_checks; simp add: demo_payload_def)+
  have "canonicalOrigin demo (p_origin ?O) = Inl ''origin_must_be_https''"
    by (simp add: demo_context)
  with th [OF parse(5) kind(5),
      THEN conjunct2, THEN conjunct2, THEN conjunct2, THEN conjunct2, THEN conjunct1]
    issuer(1)
  have O: "fetch demo demo_env demo_now (demo_request ''epoch=20000;O'') exhausted_world
     = (error_response 500 ''origin_must_be_https'', exhausted_world)"
    by blast

  have fields: "p_AADr demo_payload = ''policy=comments''" "p_Zprime demo_payload = ''24''"
    "p_KID demo_payload = ''kid-2025-11''"
    by (simp_all add: demo_payload_def)
  have bind: "bindC_of demo ?a [199] [104] ''20000'' ''comments'' [231] = [231]"
    by (rule demo_bindC(2); simp add: demo_payload_def)
  have "canonicalOrigin demo (p_origin ?a) = Inr ''https://example.com''
      \<and> bytesToBig (b64urlToBytes demo (pi_c (p_piC ?a))) = Inr 5
      \<and> bytesToBig (b64urlToBytes demo (pi_r (p_piC ?a))) = Inr 3"
    by (simp add: demo_payload_def demo_context demo_fields demo_scalars)
  moreover have "(let epochDays = currentEpochDays demo demo_now;
            policyId = parsePolicyId demo (p_AADr ?a);
            win = windowId demo epochDays;
            eta = deriveEta demo (BRASS_ISSUER_PUBKEY demo_env) ''https://example.com''
                    epochDays policyId win;
            y = deriveNullifierY demo (p_Zprime ?a) (p_KID ?a) (p_AADr ?a) eta
        in piC_check demo 5 9 5 3
             (bindC_of demo ?a y (compute_d demo (demo_request ''epoch=20001;a'') ?a) win
                policyId eta)) = Next False"
    by (simp add: Let_def fields demo_context demo_compute_d bind demo_piC)
  ultimately
  have C: "fetch demo demo_env demo_now (demo_request ''epoch=20001;a'') exhausted_world
     = (error_response 401 ''invalid_piC'', exhausted_world)"
    using th [OF parse(6) kind(6), where cC = 5 and rC = 3,
      THEN conjunct2, THEN conjunct2, THEN conjunct2, THEN conjunct2, THEN conjunct2,
      THEN conjunct1] issuer(2)
    by blast
  from P Z k1 k2 I D O C show ?thesis by blast
qed

text \<open>
  C6 as the specification words it fails for the kinds that are thrown: the answers to an
  empty point and to an origin over http have status 500.
\<close>

theorem thrown_kinds_get_500:
  "fst (fetch demo demo_env demo_now (demo_request ''epoch=20000;P='') empty_world)
     = \<lparr>http_status = 500, http_body = JError ''invalid_point_encoding''\<rparr>
   \<and> fst (fetch demo demo_env demo_now (demo_request ''epoch=20000;O'') empty_world)
     = \<lparr>http_status = 500, http_body = JError ''origin_must_be_https''\<rparr>"
  by (simp add: demo_fetch_failures)

text \<open>
  C7. When a step before the spend fails (authentication, parsing, point decoding, the
  issuer proof, the \<open>d_client\<close> check, origin canonicalization, the client proof), the
  handler returns the error and the persistent state is as before: a request that is
  answered with a status other than 200 and 429 has written nothing.
\<close>

theorem no_store_write_before_spend:
  "(r_method req = ''POST'' \<and> pre_spend pr env now req (w_kv w) = Return r
      \<longrightarrow> fetch pr env now req w = (r, w))
   \<and> (r_method req = ''POST'' \<and> pre_spend pr env now req (w_kv w) = Throw e
      \<longrightarrow> fetch pr env now req w
            = (error_response 500 (if e = [] then ''server_error'' else e), w))
   \<and> (http_status (fst (fetch pr env now req w)) \<noteq> 200
       \<and> http_status (fst (fetch pr env now req w)) \<noteq> 429
      \<longrightarrow> snd (fetch pr env now req w) = w)"
proof -
  have "snd (fetch pr env now req w) = w"
    if "http_status (fst (fetch pr env now req w)) \<noteq> 200"
      and "http_status (fst (fetch pr env now req w)) \<noteq> 429"
  proof (cases "pre_spend pr env now req (w_kv w)")
    case (Next v)
    with that finish_status [of pr env now v w] show ?thesis
      by (auto simp: fetch_def split: if_splits)
  next
    case (Return r)
    then show ?thesis by (simp add: fetch_def)
  next
    case (Throw e)
    then show ?thesis by (simp add: fetch_def)
  qed
  then show ?thesis by (auto simp: fetch_def)
qed

text \<open>A rejected client proof and an empty point, against a store that holds a counter.\<close>

theorem no_store_write_before_spend_witness:
  "fetch demo demo_env demo_now (demo_request ''epoch=20001;a'') exhausted_world
     = (error_response 401 ''invalid_piC'', exhausted_world)
   \<and> fetch demo demo_env demo_now (demo_request ''epoch=20000;P='') exhausted_world
     = (error_response 500 ''invalid_point_encoding'', exhausted_world)"
  using
    no_store_write_before_spend [of "demo_request ''epoch=20001;a''" demo demo_env demo_now
      exhausted_world "error_response 401 ''invalid_piC''" "[]"]
    no_store_write_before_spend [of "demo_request ''epoch=20000;P=''" demo demo_env demo_now
      exhausted_world "error_response 401 []" "''invalid_point_encoding''"]
  by (simp add: demo_request_POST demo_pre_spend)




text \<open>
  C9 (as the code has it). A \<^verbatim>\<open>cacheGraceResponse\<close> call that finds no entry under the
  grace key stores its response with its TTL; a call that finds an entry leaves the store
  as it is. On the Durable Object backend a call is one step, so of two calls only the
  first one writes. On the KV backend this holds of calls that run one after the other;
  the write of a call is decided by what its own read returned: after a read that found
  an entry nothing is written, and after a read that found nothing the response is
  written over whatever the store holds by then.
  (Entries leave the store only by their TTL, which is outside a call.)
\<close>

theorem grace_cache_first_writer:
  "(kv (grace_key pid gk) = None \<longrightarrow>
      KVStore_cacheGraceResponse pid gk t r kv
        = storage_put kv (grace_key pid gk) (Doc r) (Some t)) \<and>
   (kv (grace_key pid gk) = Some e \<longrightarrow> KVStore_cacheGraceResponse pid gk t r kv = kv) \<and>
   (dos (grace_object pid gk) (grace_key pid gk) = None \<longrightarrow>
      DurableObjectStore_cacheGraceResponse pid gk t r dos
        = dos(grace_object pid gk :=
                storage_put (dos (grace_object pid gk)) (grace_key pid gk) (Doc r) (Some t))) \<and>
   (dos (grace_object pid gk) (grace_key pid gk) = Some e \<longrightarrow>
      DurableObjectStore_cacheGraceResponse pid gk t r dos = dos) \<and>
   KVStore_cacheGraceResponse pid gk t2 r2 (KVStore_cacheGraceResponse pid gk t1 r1 kv)
     = KVStore_cacheGraceResponse pid gk t1 r1 kv \<and>
   DurableObjectStore_cacheGraceResponse pid gk t2 r2
       (DurableObjectStore_cacheGraceResponse pid gk t1 r1 dos)
     = DurableObjectStore_cacheGraceResponse pid gk t1 r1 dos \<and>
   KVStore_cacheGraceResponse_put pid gk t r (Some found) kv' = kv' \<and>
   KVStore_cacheGraceResponse_put pid gk t r None kv'
     = storage_put kv' (grace_key pid gk) (Doc r) (Some t)"
  by (auto simp: KVStore_cacheGraceResponse_def KVStore_cacheGraceResponse_get_def
      KVStore_cacheGraceResponse_put_def DurableObjectStore_cacheGraceResponse_def
      BrassCounterDO_handleGraceCache_def storage_get_def split: option.splits)

text \<open>
  On both backends a success is cached by the first call, and the denial of the call that
  follows does not replace it.
\<close>

theorem grace_cache_first_writer_witness:
  "KVStore_cacheGraceResponse ''test_project'' ''4'' 60 (successResponse 2) Map.empty
   = storage_put Map.empty (grace_key ''test_project'' ''4'') (Doc (successResponse 2)) (Some 60)
   \<and> KVStore_cacheGraceResponse ''test_project'' ''4'' 60 failureResponse
     (storage_put Map.empty (grace_key ''test_project'' ''4'') (Doc (successResponse 2)) (Some 60))
   = storage_put Map.empty (grace_key ''test_project'' ''4'') (Doc (successResponse 2)) (Some 60)
   \<and> DurableObjectStore_cacheGraceResponse ''test_project'' ''4'' 60 (successResponse 2)
        (\<lambda>name. Map.empty)
   = (\<lambda>name. Map.empty)(grace_object ''test_project'' ''4'' :=
        storage_put Map.empty (grace_key ''test_project'' ''4'') (Doc (successResponse 2)) (Some 60))
   \<and> DurableObjectStore_cacheGraceResponse ''test_project'' ''4'' 60 failureResponse
     ((\<lambda>name. Map.empty)(grace_object ''test_project'' ''4'' :=
        storage_put Map.empty (grace_key ''test_project'' ''4'') (Doc (successResponse 2)) (Some 60)))
   = (\<lambda>name. Map.empty)(grace_object ''test_project'' ''4'' :=
        storage_put Map.empty (grace_key ''test_project'' ''4'') (Doc (successResponse 2)) (Some 60))"
proof -
  let ?kv = "storage_put Map.empty (grace_key ''test_project'' ''4'') (Doc (successResponse 2)) (Some 60)"
  let ?none = "(\<lambda>name. Map.empty) :: objects"
  let ?dos = "?none(grace_object ''test_project'' ''4'' := ?kv)"
  let ?e = "\<lparr>content = Doc (successResponse 2), expirationTtl = Some 60\<rparr>"
  have absent: "(Map.empty :: storage) (grace_key ''test_project'' ''4'') = None"
    "?none (grace_object ''test_project'' ''4'') (grace_key ''test_project'' ''4'') = None"
    by simp_all
  have present: "?kv (grace_key ''test_project'' ''4'') = Some ?e"
    "?dos (grace_object ''test_project'' ''4'') (grace_key ''test_project'' ''4'') = Some ?e"
    by simp_all
  from grace_cache_first_writer [of Map.empty "''test_project''" "''4''" 60 "successResponse 2"
      ?e ?none] absent
  have first: "KVStore_cacheGraceResponse ''test_project'' ''4'' 60 (successResponse 2) Map.empty
      = ?kv"
    "DurableObjectStore_cacheGraceResponse ''test_project'' ''4'' 60 (successResponse 2) ?none
      = ?dos"
    by blast+
  from grace_cache_first_writer [of ?kv "''test_project''" "''4''" 60 failureResponse ?e ?dos]
    present
  have second: "KVStore_cacheGraceResponse ''test_project'' ''4'' 60 failureResponse ?kv = ?kv"
    "DurableObjectStore_cacheGraceResponse ''test_project'' ''4'' 60 failureResponse ?dos = ?dos"
    by blast+
  from first second show ?thesis by blast
qed

text \<open>
  C9 as the specification words it fails on the best-effort backend. Two calls for the
  same project and grace key overlap on an empty KV store: both reads find nothing, the
  first call stores its success, and the second call, which has read before that write,
  stores its denial over it. Both writers have stored, and the response stored under the
  grace key has changed.
\<close>

theorem overlapping_grace_writes:
  "KVStore_cacheGraceResponse_get ''test_project'' ''4'' Map.empty = None
   \<and> KVStore_cacheGraceResponse_put ''test_project'' ''4'' 60 (successResponse 2) None Map.empty
        (grace_key ''test_project'' ''4'')
     = Some \<lparr>content = Doc (successResponse 2), expirationTtl = Some 60\<rparr>
   \<and> KVStore_cacheGraceResponse_put ''test_project'' ''4'' 60 failureResponse None
        (KVStore_cacheGraceResponse_put ''test_project'' ''4'' 60 (successResponse 2) None
           Map.empty)
        (grace_key ''test_project'' ''4'')
     = Some \<lparr>content = Doc failureResponse, expirationTtl = Some 60\<rparr>
   \<and> KVStore_cacheGraceResponse_overlapped ''test_project'' ''4'' 60 (successResponse 2)
        60 failureResponse Map.empty (grace_key ''test_project'' ''4'')
     = Some \<lparr>content = Doc failureResponse, expirationTtl = Some 60\<rparr>
   \<and> successResponse 2 \<noteq> failureResponse"
  by (simp add: KVStore_cacheGraceResponse_overlapped_def KVStore_cacheGraceResponse_get_def
      KVStore_cacheGraceResponse_put_def Let_def)
    (simp add: successResponse_def failureResponse_def)

text \<open>
  C10. When the namespaced counter reads 0 and a legacy counter holds a positive count,
  spend copies the legacy count to the namespaced counter with the spend's TTL, on both
  backends. The Durable Object does not pass the TTL: \<^verbatim>\<open>put('count', legacyCount)\<close> has no
  options, where the KV store passes \<^verbatim>\<open>expirationTtl: ttlSeconds\<close>. With a legacy count
  of 5 and the limit 3 the spend is denied and the copy is what stays in the store: on the
  Durable Object without a TTL, on the KV store with the TTL 60 of the spend.
\<close>

theorem durable_object_migration_without_ttl:
  "snd (BrassCounterDO_handleSpend ''test_project'' ''1'' 3 60 legacy_object) ''count''
     = Some \<lparr>content = Num 5, expirationTtl = None\<rparr>
   \<and> snd (KVStore_spend demo_buildCounterKey demo_buildLegacyCounterKey demo_key ''1'' 3 60
             legacy_kv) (count_key (demo_buildCounterKey demo_key))
     = Some \<lparr>content = Num 5, expirationTtl = Some 60\<rparr>"
  by (simp add: store_eval legacy_object_def legacy_kv_def)

end
